theory Spec2Isabelle
  imports Main "HOL-Library.Word"
begin

section \<open>JavaScript values as the handler sees them\<close>

text \<open>
  The handler of \<^verbatim>\<open>src/api/generate.js\<close> reads a parsed JSON body, a clock, a
  process-wide \<^verbatim>\<open>Map\<close> and the result of one call to the generation provider.
  A JavaScript string is a sequence of 16-bit code units; the Korean texts of the source
  are written here by their code units, ASCII runs through \<open>asc\<close>.
\<close>

type_synonym jstring = "16 word list"

definition asc :: "string \<Rightarrow> jstring" where
  "asc s = map of_char s"

text \<open>
  What can be thrown inside the \<^verbatim>\<open>try\<close> block: a \<^verbatim>\<open>TypeError\<close> of the runtime
  (a conversion to string that fails, a read on \<^verbatim>\<open>null\<close>, a loop over a value that
  is not iterable) or the rejection of the provider's promise.
\<close>

datatype fault = TypeError | ProviderFault

text \<open>
  A number is kept by the two things the handler can observe of it: whether it is falsy
  (\<^verbatim>\<open>0\<close>, \<^verbatim>\<open>-0\<close>, \<^verbatim>\<open>NaN\<close>) and the text \<^verbatim>\<open>String(n)\<close> renders. The
  handler does no arithmetic on a number of the request or of the provider.
\<close>

datatype jsnum = JSNum (num_falsy: bool) (num_text: jstring)

text \<open>
  A value as \<^verbatim>\<open>JSON.parse\<close> builds it, with \<^verbatim>\<open>undefined\<close> for what is absent.
  An object is the association list of its own properties, a name being looked up from
  the front of the list.
\<close>

datatype jsval =
    JUndefined
  | JNull
  | JBool bool
  | JNum jsnum
  | JStr jstring
  | JArr "jsval list"
  | JObj "(jstring \<times> jsval) list"

fun truthy :: "jsval \<Rightarrow> bool" where
  "truthy JUndefined = False"
| "truthy JNull = False"
| "truthy (JBool b) = b"
| "truthy (JNum n) = (\<not> num_falsy n)"
| "truthy (JStr s) = (s \<noteq> [])"
| "truthy (JArr xs) = True"
| "truthy (JObj ps) = True"

text \<open>\<^verbatim>\<open>a || b\<close>\<close>

definition js_or :: "jsval \<Rightarrow> jsval \<Rightarrow> jsval" where
  "js_or a b = (if truthy a then a else b)"

fun nullish :: "jsval \<Rightarrow> bool" where
  "nullish JUndefined = True"
| "nullish JNull = True"
| "nullish v = False"

text \<open>
  \<^verbatim>\<open>v.name\<close> on a value that is neither \<^verbatim>\<open>null\<close> nor \<^verbatim>\<open>undefined\<close>, for the
  names the handler reads (\<^verbatim>\<open>licenseKey\<close>, \<^verbatim>\<open>tone\<close>, \<^verbatim>\<open>clipboardText\<close>,
  \<^verbatim>\<open>clientId\<close>, \<^verbatim>\<open>scenario\<close>, \<^verbatim>\<open>output\<close>, \<^verbatim>\<open>content\<close>, \<^verbatim>\<open>type\<close>,
  \<^verbatim>\<open>text\<close>). None of them is an index, \<^verbatim>\<open>length\<close> or a member of a built-in
  prototype, so the read finds an own property of an object or nothing.
\<close>

fun own :: "jsval \<Rightarrow> jstring \<Rightarrow> jsval" where
  "own (JObj ps) k = (case map_of ps k of None \<Rightarrow> JUndefined | Some v \<Rightarrow> v)"
| "own v k = JUndefined"

text \<open>\<^verbatim>\<open>v.name\<close> in general: a read on \<^verbatim>\<open>null\<close> or \<^verbatim>\<open>undefined\<close> throws.\<close>

definition get_prop :: "jsval \<Rightarrow> jstring \<Rightarrow> fault + jsval" where
  "get_prop v k = (if nullish v then Inl TypeError else Inr (own v k))"

text \<open>\<^verbatim>\<open>v?.name\<close>\<close>

definition opt_prop :: "jsval \<Rightarrow> jstring \<Rightarrow> jsval" where
  "opt_prop v k = (if nullish v then JUndefined else own v k)"

text \<open>
  Conversion to a string, as a template literal \<^verbatim>\<open>${v}\<close> and \<^verbatim>\<open>v.toString()\<close> on
  a value that is not nullish both do it. An array joins its elements with a comma, a
  \<^verbatim>\<open>null\<close> or \<^verbatim>\<open>undefined\<close> element giving the empty text. An object answers
  \<^verbatim>\<open>[object Object]\<close> through \<^verbatim>\<open>Object.prototype.toString\<close>, unless it has an own
  property \<^verbatim>\<open>toString\<close>: a JSON value is never callable, so the conversion throws.
\<close>

fun toString :: "jsval \<Rightarrow> fault + jstring"
and join_elems :: "jsval list \<Rightarrow> fault + jstring"
and elem_text :: "jsval \<Rightarrow> fault + jstring" where
  "toString JUndefined = Inr (asc ''undefined'')"
| "toString JNull = Inr (asc ''null'')"
| "toString (JBool b) = Inr (if b then asc ''true'' else asc ''false'')"
| "toString (JNum n) = Inr (num_text n)"
| "toString (JStr s) = Inr s"
| "toString (JArr xs) = join_elems xs"
| "toString (JObj ps) =
     (if map_of ps (asc ''toString'') = None then Inr (asc ''[object Object]'')
      else Inl TypeError)"
| "join_elems [] = Inr []"
| "join_elems [x] = elem_text x"
| "join_elems (x # y # ys) =
     (case elem_text x of
        Inl e \<Rightarrow> Inl e
      | Inr a \<Rightarrow>
          (case join_elems (y # ys) of
             Inl e \<Rightarrow> Inl e
           | Inr b \<Rightarrow> Inr (a @ asc '','' @ b)))"
| "elem_text JUndefined = Inr []"
| "elem_text JNull = Inr []"
| "elem_text v = toString v"

text \<open>
  \<^verbatim>\<open>String.prototype.trim\<close> removes the white space and the line terminators of
  ECMAScript from both ends.
\<close>

definition is_ws :: "16 word \<Rightarrow> bool" where
  "is_ws c =
     (c \<in> {0x09, 0x0A, 0x0B, 0x0C, 0x0D, 0x20, 0xA0, 0x1680, 0x2028, 0x2029, 0x202F, 0x205F,
            0x3000, 0xFEFF}
      \<or> (0x2000 \<le> c \<and> c \<le> 0x200A))"

fun trimEnd :: "jstring \<Rightarrow> jstring" where
  "trimEnd [] = []"
| "trimEnd (c # cs) =
     (case trimEnd cs of [] \<Rightarrow> (if is_ws c then [] else [c]) | r # rs \<Rightarrow> c # r # rs)"

definition trim :: "jstring \<Rightarrow> jstring" where
  "trim s = trimEnd (dropWhile is_ws s)"

text \<open>
  \<^verbatim>\<open>for (const c of v)\<close>: an array gives its elements, a string its code points (a
  surrogate pair is one of them), anything else is not iterable.
\<close>

fun code_points :: "jstring \<Rightarrow> jstring list" where
  "code_points [] = []"
| "code_points [a] = [[a]]"
| "code_points (a # b # cs) =
     (if 0xD800 \<le> a \<and> a \<le> 0xDBFF \<and> 0xDC00 \<le> b \<and> b \<le> 0xDFFF
      then [a, b] # code_points cs
      else [a] # code_points (b # cs))"

fun iterate :: "jsval \<Rightarrow> fault + jsval list" where
  "iterate (JArr xs) = Inr xs"
| "iterate (JStr s) = Inr (map JStr (code_points s))"
| "iterate v = Inl TypeError"

text \<open>The lines of a text joined by a line feed, as they stand in a template literal.\<close>

fun join_lines :: "jstring list \<Rightarrow> jstring" where
  "join_lines [] = []"
| "join_lines [l] = l"
| "join_lines (l # k # ls) = l @ 0x0A # join_lines (k # ls)"

section \<open>The response envelope and the provider\<close>

record envelope =
  ok :: bool
  reply :: jstring
  todayUsage :: nat
  todayLimit :: nat
  isPro :: bool
  message :: jstring

text \<open>\<^verbatim>\<open>res.status(s).json(e)\<close>\<close>

record http_response =
  status :: nat
  json :: envelope

text \<open>The argument of \<^verbatim>\<open>openai.responses.create\<close>.\<close>

record input_part =
  part_type :: jstring
  part_text :: jstring

record input_message =
  msg_role :: jstring
  msg_content :: "input_part list"

record create_params =
  cp_model :: jstring
  cp_input :: "input_message list"

text \<open>
  The provider is outside the repository: its promise resolves to some value or rejects,
  and \<^verbatim>\<open>await\<close> turns a rejection into a throw.
\<close>

datatype provider_result = Resolves jsval | Rejects

type_synonym provider = "create_params \<Rightarrow> provider_result"

text \<open>
  \<^verbatim>\<open>usageCounter\<close>, the in-memory \<^verbatim>\<open>Map\<close> from a key to a count. The counts are
  the integers the handler itself stores, starting at one and growing by one; a
  JavaScript number holds them exactly over every range a process can count through.
\<close>

type_synonym counter = "jstring \<rightharpoonup> nat"

section \<open>The texts of the source\<close>

definition msg_quota :: jstring where
  "msg_quota =
   [0xBB34, 0xB8CC, 0x0020, 0xC0AC, 0xC6A9, 0xB7C9, 0x0028, 0xD558, 0xB8E8, 0x0020, 0x0035, 0xD68C,
    0x0029, 0xC744, 0x0020, 0xCD08, 0xACFC, 0xD588, 0xC2B5, 0xB2C8, 0xB2E4, 0x002E]"

definition msg_retry :: jstring where
  "msg_retry =
   [0xC751, 0xB2F5, 0x0020, 0xC0DD, 0xC131, 0xC5D0, 0x0020, 0xC2E4, 0xD328, 0xD588, 0xC2B5, 0xB2C8,
    0xB2E4, 0x002E, 0x0020, 0xC7A0, 0xC2DC, 0x0020, 0xD6C4, 0x0020, 0xB2E4, 0xC2DC, 0x0020, 0xC2DC,
    0xB3C4, 0xD574, 0x0020, 0xC8FC, 0xC138, 0xC694, 0x002E]"

definition msg_done_pro :: jstring where
  "msg_done_pro = [0xC0DD, 0xC131, 0x0020, 0xC644, 0xB8CC, 0x0028, 0xD504, 0xB85C, 0x0029]"

definition msg_done :: jstring where
  "msg_done = [0xC0DD, 0xC131, 0x0020, 0xC644, 0xB8CC]"

definition msg_server_error :: jstring where
  "msg_server_error =
   [0xC11C, 0xBC84, 0x0020, 0xC624, 0xB958, 0xAC00, 0x0020, 0xBC1C, 0xC0DD, 0xD588, 0xC2B5, 0xB2C8,
    0xB2E4, 0x002E, 0x0020, 0xC7A0, 0xC2DC, 0x0020, 0xD6C4, 0x0020, 0xB2E4, 0xC2DC, 0x0020, 0xC2DC,
    0xB3C4, 0xD574, 0x0020, 0xC8FC, 0xC138, 0xC694, 0x002E]"

text \<open>
  The template literal of \<^verbatim>\<open>systemPrompt\<close>, source lines 50 to 122, by its blocks
  of lines; the blocks are separated by one empty line each (source lines 57, 65, 72, 76,
  78, 87, 95 and 103).
\<close>

text \<open>Source lines 51 to 56: the persona and the limits on every answer.\<close>

definition sp_persona :: "jstring list" where
  "sp_persona =
    [
     ([0xB108, 0xB294] @ asc '' 10'' @ [0xB144, 0x0020, 0xCC28, 0x0020, 0xCFE0, 0xD321, 0x002F,
      0xC2A4, 0xB9C8, 0xD2B8, 0xC2A4, 0xD1A0, 0xC5B4, 0x0020, 0xD310, 0xB9E4, 0xC790, 0xB85C,
      0x002C, 0x0020, 0xACE0, 0xAC1D, 0x0020, 0xBB38, 0xC758, 0xC5D0, 0x0020, 0xB2F5, 0xBCC0,
      0xD558, 0xB294] @ asc '' CS '' @ [0xB2F4, 0xB2F9, 0xC790, 0xC774, 0xB2E4, 0x002E]),
     ([0xD56D, 0xC0C1, 0x0020, 0xD55C, 0xAD6D, 0xC5B4, 0xB85C, 0xB9CC, 0x0020, 0xB2F5, 0xBCC0,
      0xD55C, 0xB2E4, 0x002E, 0x0020, 0xB9D0, 0xD22C, 0xB294, 0x0020, 0xC815, 0xC911, 0xD558,
      0xACE0, 0x0020, 0xBA85, 0xD655, 0xD558, 0xAC8C, 0x0020, 0xC720, 0xC9C0, 0xD55C, 0xB2E4,
      0x002E]),
     ([0xB2F5, 0xBCC0, 0x0020, 0xAE38, 0xC774, 0xB294] @ asc '' 150~220'' @ [0xC790, 0x0020, 0xC815,
      0xB3C4, 0xB85C, 0x0020, 0xC720, 0xC9C0, 0xD55C, 0xB2E4, 0x002E]),
     ([0xC774, 0xBAA8, 0xD2F0, 0xCF58, 0xC774, 0xB098, 0x0020, 0xACFC, 0xD55C, 0x0020, 0xB290,
      0xB08C, 0xD45C, 0x002F, 0xBB3C, 0xC74C, 0xD45C] @ asc ''(!!, ???)'' @ [0xB294, 0x0020, 0xC0AC,
      0xC6A9, 0xD558, 0xC9C0, 0x0020, 0xC54A, 0xB294, 0xB2E4, 0x002E]),
     ([0xACE0, 0xAC1D, 0xC744, 0x0020, 0xD0D3, 0xD558, 0xB294, 0x0020, 0xD45C, 0xD604, 0xC774,
      0xB098, 0x0020, 0xACF5, 0xACA9, 0xC801, 0xC73C, 0xB85C, 0x0020, 0xB4E4, 0xB9B4, 0x0020,
      0xC218, 0x0020, 0xC788, 0xB294, 0x0020, 0xD45C, 0xD604, 0xC744, 0x0020, 0xC4F0, 0xC9C0,
      0x0020, 0xC54A, 0xB294, 0xB2E4, 0x002E]),
     ([0x0022, 0x0041, 0x0049, 0x0022, 0x002C, 0x0020, 0x0022, 0xC790, 0xB3D9, 0x0020, 0xC751,
      0xB2F5, 0x0022, 0x0020, 0xAC19, 0xC740, 0x0020, 0xD45C, 0xD604, 0xC740, 0x0020, 0xC808,
      0xB300, 0x0020, 0xC4F0, 0xC9C0, 0x0020, 0xC54A, 0xB294, 0xB2E4, 0x002E])
    ]"

text \<open>Source lines 58 to 64: the style guide of a small seller.\<close>

definition sp_seller_style :: "jstring list" where
  "sp_seller_style =
    [
     ([0x005B, 0xC18C, 0xADDC, 0xBAA8, 0x0020, 0xC140, 0xB7EC, 0x0020, 0xD398, 0xB974, 0xC18C,
      0xB098, 0x002F, 0xC2A4, 0xD0C0, 0xC77C, 0x0020, 0xAC00, 0xC774, 0xB4DC, 0x005D]),
     ([0x002D, 0x0020, 0xB108, 0xB294, 0x0020, 0x0022, 0xC791, 0xC740, 0x0020, 0xC628, 0xB77C,
      0xC778, 0x0020, 0xC1FC, 0xD551, 0xBAB0, 0xC758, 0x0020, 0xD310, 0xB9E4, 0xC790]
      @ asc ''/CS '' @ [0xB2F4, 0xB2F9, 0xC790, 0x0022, 0xB2E4, 0x002E]),
     ([0x002D, 0x0020, 0xD68C, 0xC0AC, 0x0020, 0xACF5, 0xC9C0, 0xBB38, 0x002F, 0xC57D, 0xAD00,
      0xCCB4, 0xCC98, 0xB7FC, 0x0020, 0xB531, 0xB531, 0xD558, 0xC9C0, 0x0020, 0xC54A, 0xAC8C,
      0x002C, 0x0020, 0xC2E4, 0xC81C, 0x0020, 0xC18C, 0xADDC, 0xBAA8, 0x0020, 0xC140, 0xB7EC,
      0xAC00, 0x0020, 0xC4F0, 0xB294, 0x0020, 0xC790, 0xC5F0, 0xC2A4, 0xB7EC, 0xC6B4, 0x0020,
      0xC874, 0xB313, 0xB9D0, 0xC744, 0x0020, 0xC0AC, 0xC6A9, 0xD55C, 0xB2E4, 0x002E]),
     ([0x002D, 0x0020, 0xC608, 0xC2DC, 0x0020, 0xC5B4, 0xD22C, 0x003A]),
     ([0x0020, 0x0020, 0x00B7, 0x0020, 0x0022, 0xC800, 0xD76C, 0x0020, 0xCABD, 0xC5D0, 0xC11C,
      0x0020, 0xBC14, 0xB85C, 0x0020, 0xD655, 0xC778, 0xD574, 0xC11C, 0x0020, 0xCC98, 0xB9AC,
      0x0020, 0xB3C4, 0xC640, 0xB4DC, 0xB9AC, 0xACA0, 0xC2B5, 0xB2C8, 0xB2E4, 0x002E, 0x0022]),
     ([0x0020, 0x0020, 0x00B7, 0x0020, 0x0022, 0xC870, 0xAE08, 0x0020, 0xBC88, 0xAC70, 0xB85C,
      0xC6B0, 0xC2DC, 0xACA0, 0xC9C0, 0xB9CC] @ asc '' ~ '' @ [0xBD80, 0xD0C1, 0xB4DC, 0xB9AC,
      0xACA0, 0xC2B5, 0xB2C8, 0xB2E4, 0x002E, 0x0022]),
     ([0x002D, 0x0020, 0xBC18, 0xB9D0, 0x002F, 0xBC18, 0xCBE4, 0x0020, 0xBC18, 0xB9D0, 0x002C,
      0x0020, 0xC774, 0xBAA8, 0xD2F0, 0xCF58, 0x0028, 0x314E, 0x314E] @ asc '', ^^, '' @ [0x3160,
      0x3160, 0x0020, 0xB4F1, 0x0029, 0xC740, 0x0020, 0xC0AC, 0xC6A9, 0xD558, 0xC9C0, 0x0020,
      0xC54A, 0xB294, 0xB2E4, 0x002E])
    ]"

text \<open>Source lines 66 to 71: how not to sound automated.\<close>

definition sp_no_ai :: "jstring list" where
  "sp_no_ai =
    [
     (asc ''[AI '' @ [0xD2F0, 0x0020, 0xC904, 0xC774, 0xAE30, 0x005D]),
     ([0x002D, 0x0020, 0x0022, 0x0041, 0x0049, 0x0022, 0x002C, 0x0020, 0x0022, 0xC790, 0xB3D9,
      0x0020, 0xC751, 0xB2F5, 0x0022, 0xC774, 0xB77C, 0xB294, 0x0020, 0xD45C, 0xD604, 0xC740,
      0x0020, 0xC808, 0xB300, 0x0020, 0xC4F0, 0xC9C0, 0x0020, 0xC54A, 0xB294, 0xB2E4, 0x002E]),
     ([0x002D, 0x0020, 0xACFC, 0xD558, 0xAC8C, 0x0020, 0xACF5, 0xC2DD, 0xC801, 0xC778, 0x0020,
      0xD45C, 0xD604, 0xC740, 0x0020, 0xD53C, 0xD558, 0xACE0, 0x0020, 0xC790, 0xC5F0, 0xC2A4,
      0xB7FD, 0xAC8C, 0x0020, 0xBC14, 0xAFD4, 0x0020, 0xC4F4, 0xB2E4, 0x002E]),
     ([0x0020, 0x0020, 0x00B7, 0x0020, 0x0022, 0xC774, 0xC6A9, 0xD574, 0x0020, 0xC8FC, 0xC154,
      0xC11C, 0x0020, 0xC9C4, 0xC2EC, 0xC73C, 0xB85C, 0x0020, 0xAC10, 0xC0AC, 0xB4DC, 0xB9BD,
      0xB2C8, 0xB2E4, 0x002E, 0x0022, 0x0020, 0x2192, 0x0020, 0x0022, 0xC774, 0xC6A9, 0xD574,
      0x0020, 0xC8FC, 0xC154, 0xC11C, 0x0020, 0xAC10, 0xC0AC, 0xD569, 0xB2C8, 0xB2E4, 0x002E,
      0x0022]),
     ([0x0020, 0x0020, 0x00B7, 0x0020, 0x0022, 0xBD88, 0xD3B8, 0xC744, 0x0020, 0xB4DC, 0xB824,
      0x0020, 0xB300, 0xB2E8, 0xD788, 0x0020, 0xC8C4, 0xC1A1, 0xD569, 0xB2C8, 0xB2E4, 0x002E,
      0x0022, 0x0020, 0x2192, 0x0020, 0x0022, 0xBD88, 0xD3B8, 0xC744, 0x0020, 0xB4DC, 0xB824,
      0x0020, 0xC815, 0xB9D0, 0x0020, 0xC8C4, 0xC1A1, 0xD569, 0xB2C8, 0xB2E4, 0x002E, 0x0022]),
     ([0x002D, 0x0020, 0xACE0, 0xAC1D, 0xC5D0, 0xAC8C, 0x0020, 0xCC45, 0xC784, 0xC744, 0x0020,
      0xB3CC, 0xB9AC, 0xB294, 0x0020, 0xB258, 0xC559, 0xC2A4, 0x0028, 0xC608, 0x003A, 0x0020,
      0x0022, 0xC870, 0xAE08, 0xB9CC, 0x0020, 0xD798, 0xC744, 0x0020, 0xB35C, 0x0020, 0xC8FC,
      0xC2DC, 0xBA74, 0x0020, 0xAD1C, 0xCC2E, 0xC2B5, 0xB2C8, 0xB2E4, 0x0022, 0x002C, 0x0020,
      0x0022, 0xC0AC, 0xC6A9, 0x0020, 0xBC29, 0xBC95, 0xC744, 0x0020, 0xC798, 0xBABB, 0xD558,
      0xC154, 0xC11C, 0x0020, 0xBC1C, 0xC0DD, 0xD588, 0xC2B5, 0xB2C8, 0xB2E4, 0x0022, 0x0020,
      0xB4F1, 0x0029, 0xB294, 0x0020, 0xC0AC, 0xC6A9, 0xD558, 0xC9C0, 0x0020, 0xC54A, 0xB294,
      0xB2E4, 0x002E])
    ]"

text \<open>Source lines 73 to 75: varying the sentence patterns.\<close>

definition sp_variation :: "jstring list" where
  "sp_variation =
    [
     ([0x005B, 0xBB38, 0xC7A5, 0x0020, 0xD328, 0xD134, 0x0020, 0xB2E4, 0xC591, 0xD654, 0x005D]),
     ([0x002D, 0x0020, 0xB9E4, 0x0020, 0xB2F5, 0xBCC0, 0xB9C8, 0xB2E4, 0x0020, 0xCCAB, 0x0020,
      0xBB38, 0xC7A5, 0xC758, 0x0020, 0xD45C, 0xD604, 0xACFC, 0x0020, 0xBB38, 0xC7A5, 0x0020,
      0xAE38, 0xC774, 0xB97C, 0x0020, 0xAC00, 0xB2A5, 0xD558, 0xBA74, 0x0020, 0xC870, 0xAE08,
      0xC529, 0x0020, 0xBC14, 0xAFBC, 0xB2E4, 0x002E]),
     ([0x002D, 0x0020, 0xC608, 0x003A, 0x0020, 0x0022, 0xBB38, 0xC758, 0x0020, 0xC8FC, 0xC154,
      0xC11C, 0x0020, 0xAC10, 0xC0AC, 0xD569, 0xB2C8, 0xB2E4, 0x002E, 0x0022, 0x002C, 0x0020,
      0x0022, 0xC9C8, 0xBB38, 0x0020, 0xB0A8, 0xACA8, 0x0020, 0xC8FC, 0xC154, 0xC11C, 0x0020,
      0xAC10, 0xC0AC, 0xD569, 0xB2C8, 0xB2E4, 0x002E, 0x0022, 0x002C, 0x0020, 0x0022, 0xBB38,
      0xC758, 0x0020, 0xB0A8, 0xACA8, 0x0020, 0xC8FC, 0xC154, 0xC11C, 0x0020, 0xAC10, 0xC0AC,
      0xB4DC, 0xB9BD, 0xB2C8, 0xB2E4, 0x002E, 0x0022, 0x0020, 0xB4F1])
    ]"

text \<open>Source lines 77 to 77: quoting the review.\<close>

definition sp_review_quote :: "jstring list" where
  "sp_review_quote =
    [
     (asc ''- scenarioValue'' @ [0xAC00, 0x0020, 0x0027] @ asc ''review'' @ [0x0027, 0xC77C, 0x0020,
      0xB54C, 0xB294, 0x002C, 0x0020, 0xB9AC, 0xBDF0, 0xC5D0, 0xC11C, 0x0020, 0xC911, 0xC694,
      0xD55C, 0x0020, 0xD45C, 0xD604, 0xC774, 0xB098, 0x0020, 0xBB38, 0xC7A5, 0xC744, 0x0020,
      0xD55C, 0x0020, 0xBC88, 0x0020, 0xC774, 0xC0C1, 0x0020, 0xADF8, 0xB300, 0xB85C, 0x0020,
      0xC778, 0xC6A9, 0xD574, 0xC11C, 0x0020, 0xB2F5, 0xBCC0, 0xC5D0, 0x0020, 0xD3EC, 0xD568,
      0xD574, 0xB77C, 0x002E])
    ]"

text \<open>Source lines 79 to 86: the tone rules.\<close>

definition sp_tone_rules :: "jstring list" where
  "sp_tone_rules =
    [
     (asc ''[tone '' @ [0xC801, 0xC6A9, 0x0020, 0xADDC, 0xCE59, 0x005D]),
     (asc ''- tone === '' @ [0x0022] @ asc ''friendly'' @ [0x0022, 0x003A]),
     ([0x0020, 0x0020, 0x00B7, 0x0020, 0xD45C, 0xD604, 0xC744, 0x0020, 0xC870, 0xAE08, 0x0020,
      0xB354, 0x0020, 0xBD80, 0xB4DC, 0xB7FD, 0xAC8C, 0x002C, 0x0020, 0xB9D0, 0xB05D, 0xC744,
      0x0020, 0xC644, 0xACE1, 0xD558, 0xAC8C, 0x0020, 0xC0AC, 0xC6A9, 0xD55C, 0xB2E4, 0x002E]),
     (asc ''- tone === '' @ [0x0022] @ asc ''business'' @ [0x0022, 0x003A]),
     ([0x0020, 0x0020, 0x00B7, 0x0020, 0xCD5C, 0xB300, 0xD55C, 0x0020, 0xC911, 0xB9BD, 0xC801,
      0xC774, 0xACE0, 0x0020, 0xAE54, 0xB054, 0xD55C, 0x0020, 0xBB38, 0xC7A5, 0xC744, 0x0020,
      0xC0AC, 0xC6A9, 0xD55C, 0xB2E4, 0x002E]),
     (asc ''- tone === '' @ [0x0022] @ asc ''principle'' @ [0x0022, 0x003A]),
     ([0x0020, 0x0020, 0x00B7, 0x0020, 0xD310, 0xB9E4, 0xC790, 0xC758, 0x0020, 0xC815, 0xCC45,
      0xACFC, 0x0020, 0xAE30, 0xC900, 0xC744, 0x0020, 0xBD84, 0xBA85, 0xD558, 0xAC8C, 0x0020,
      0xC124, 0xBA85, 0xD558, 0xB418, 0x002C]),
     (asc ''    '' @ [0xC0C1, 0xB300, 0xBC29, 0xC774, 0x0020, 0xAE30, 0xBD84, 0x0020, 0xB098,
      0xC058, 0xC9C0, 0x0020, 0xC54A, 0xB3C4, 0xB85D, 0x0020, 0xC870, 0xC2EC, 0xC2A4, 0xB7FD,
      0xAC8C, 0x0020, 0xD45C, 0xD604, 0xD55C, 0xB2E4, 0x002E])
    ]"

text \<open>Source lines 88 to 94: the heading of the scenario rules and the rule of the general scenario.\<close>

definition sp_general_rule :: "jstring list" where
  "sp_general_rule =
    [
     (asc ''[scenario '' @ [0xC801, 0xC6A9, 0x0020, 0xADDC, 0xCE59] @ asc '': scenarioValue ''
      @ [0x2208] @ asc '' {general | claim | review}]''),
     (asc ''- scenarioValue === '' @ [0x0022] @ asc ''general'' @ [0x0022, 0x003A]),
     ([0x0020, 0x0020, 0x00B7, 0x0020, 0xBC30, 0xC1A1, 0xC77C, 0x002C, 0x0020, 0xC7AC, 0xACE0,
      0x002C, 0x0020, 0xC0C1, 0xD488, 0x0020, 0xC815, 0xBCF4, 0x0020, 0xB4F1, 0x0020, 0xC77C,
      0xBC18, 0x0020, 0xBB38, 0xC758, 0xB77C, 0xACE0, 0x0020, 0xAC00, 0xC815, 0xD55C, 0xB2E4,
      0x002E]),
     ([0x0020, 0x0020, 0x00B7, 0x0020, 0xB2F5, 0xBCC0, 0x0020, 0xAD6C, 0xC870, 0x003A]),
     (asc ''    1) '' @ [0xCCAB, 0x0020, 0xBB38, 0xC7A5, 0xC5D0, 0x0020, 0xAC00, 0xBCBC, 0xC6B4,
      0x0020, 0xAC10, 0xC0AC, 0x0020, 0xB610, 0xB294, 0x0020, 0xC751, 0xB300, 0x0020, 0xD45C,
      0xD604]),
     (asc ''    2) '' @ [0xB2E4, 0xC74C] @ asc '' 1~2'' @ [0xBB38, 0xC7A5, 0xC5D0, 0xC11C, 0x0020,
      0xD575, 0xC2EC, 0x0020, 0xB2F5, 0xBCC0, 0xC744, 0x0020, 0xAC04, 0xB2E8, 0xD558, 0xACE0,
      0x0020, 0xBA85, 0xD655, 0xD558, 0xAC8C, 0x0020, 0xC124, 0xBA85]),
     (asc ''    3) '' @ [0xB9C8, 0xC9C0, 0xB9C9, 0x0020, 0xBB38, 0xC7A5, 0xC5D0, 0xC11C, 0x0020,
      0xCD94, 0xAC00, 0x0020, 0xBB38, 0xC758, 0x0020, 0xAC00, 0xB2A5, 0xC131, 0xACFC, 0x0020,
      0xAC04, 0xB2E8, 0xD55C, 0x0020, 0xAC10, 0xC0AC, 0x0020, 0xC778, 0xC0AC, 0xB97C, 0x0020,
      0xB367, 0xBD99, 0xC784])
    ]"

text \<open>Source lines 96 to 102: the rule of the claim scenario.\<close>

definition sp_claim_rule :: "jstring list" where
  "sp_claim_rule =
    [
     (asc ''- scenarioValue === '' @ [0x0022] @ asc ''claim'' @ [0x0022, 0x003A]),
     ([0x0020, 0x0020, 0x00B7, 0x0020, 0xD30C, 0xC190, 0x002C, 0x0020, 0xBD88, 0xB7C9, 0x002C,
      0x0020, 0xD658, 0xBD88, 0x002C, 0x0020, 0xAD50, 0xD658, 0x002C, 0x0020, 0xBC18, 0xD488,
      0x002C, 0x0020, 0xCDE8, 0xC18C, 0x002C, 0x0020, 0xC9C0, 0xC5F0, 0x002C, 0x0020, 0xBD88,
      0xD3B8, 0x002C, 0x0020, 0xBD88, 0xB9CC, 0x0020, 0xB4F1, 0x0020, 0xD074, 0xB808, 0xC784,
      0x002F, 0xBD88, 0xB9CC, 0x0020, 0xC0C1, 0xD669, 0xC774, 0xB77C, 0xACE0, 0x0020, 0xAC00,
      0xC815, 0xD55C, 0xB2E4, 0x002E]),
     ([0x0020, 0x0020, 0x00B7, 0x0020, 0xB2F5, 0xBCC0, 0x0020, 0xAD6C, 0xC870, 0x0028, 0xBC18,
      0xB4DC, 0xC2DC, 0x0020, 0xC774, 0x0020, 0xC21C, 0xC11C, 0x0029, 0x003A]),
     (asc ''    1) '' @ [0xCCAB, 0x0020, 0xBB38, 0xC7A5, 0x003A, 0x0020, 0xACE0, 0xAC1D, 0xC758,
      0x0020, 0xBD88, 0xD3B8, 0xC744, 0x0020, 0xC778, 0xC815, 0xD558, 0xACE0, 0x0020, 0xC0AC,
      0xACFC, 0x002F, 0xACF5, 0xAC10, 0x0020, 0xD45C, 0xD604]),
     (asc ''    2) '' @ [0xB2E4, 0xC74C] @ asc '' 1~2'' @ [0xBB38, 0xC7A5, 0x003A, 0x0020, 0xD310,
      0xB9E4, 0xC790, 0xAC00, 0x0020, 0xD574, 0xC904, 0x0020, 0xC218, 0x0020, 0xC788, 0xB294,
      0x0020, 0xAD6C, 0xCCB4, 0x0020, 0xD574, 0xACB0, 0x0020, 0xBC29, 0xBC95, 0x0020, 0xB610,
      0xB294, 0x0020, 0xC9C4, 0xD589, 0x0020, 0xC808, 0xCC28, 0x0020, 0xC548, 0xB0B4]),
     (asc ''    3) '' @ [0xB9C8, 0xC9C0, 0xB9C9, 0x0020, 0xBB38, 0xC7A5, 0x003A, 0x0020, 0xCD94,
      0xAC00, 0x0020, 0xBB38, 0xC758, 0x0020, 0xC2DC, 0x0020, 0xC548, 0xB0B4] @ asc '' + ''
      @ [0xAC10, 0xC0AC, 0x0020, 0xC778, 0xC0AC]),
     ([0x0020, 0x0020, 0x00B7, 0x0020, 0xBB38, 0xC81C, 0xC758, 0x0020, 0xC6D0, 0xC778, 0xC744,
      0x0020, 0xACE0, 0xAC1D, 0xC758, 0x0020, 0xC0AC, 0xC6A9, 0x0020, 0xC2E4, 0xC218, 0xB85C,
      0x0020, 0xB3CC, 0xB9AC, 0xB294, 0x0020, 0xD45C, 0xD604, 0xC740, 0x0020, 0xD53C, 0xD558,
      0xACE0, 0x002C, 0x0020, 0xD310, 0xB9E4, 0xC790, 0x002F, 0xC81C, 0xD488, 0x0020, 0xCE21,
      0xC758, 0x0020, 0xD655, 0xC778, 0xACFC, 0x0020, 0xAC1C, 0xC120, 0x0020, 0xC758, 0xC9C0,
      0xB97C, 0x0020, 0xC911, 0xC2EC, 0xC73C, 0xB85C, 0x0020, 0xC124, 0xBA85, 0xD55C, 0xB2E4,
      0x002E])
    ]"

text \<open>Source lines 104 to 121: the rule of the review scenario.\<close>

definition sp_review_rule :: "jstring list" where
  "sp_review_rule =
    [
     (asc ''- scenarioValue === '' @ [0x0022] @ asc ''review'' @ [0x0022, 0x003A]),
     ([0x0020, 0x0020, 0x00B7, 0x0020, 0xB9AC, 0xBDF0, 0x002F, 0xD6C4, 0xAE30, 0xC5D0, 0x0020,
      0xB2E4, 0xB294, 0x0020, 0xB2F5, 0xAE00, 0xC774, 0xB77C, 0xACE0, 0x0020, 0xAC00, 0xC815,
      0xD55C, 0xB2E4] @ asc ''. clipboardText '' @ [0xB0B4, 0xC6A9, 0xC744, 0x0020, 0xBC14, 0xD0D5,
      0xC73C, 0xB85C]),
     (asc ''    '' @ [0xAE0D, 0xC815, 0x002F, 0xBD80, 0xC815, 0x002F, 0xBCF5, 0xD569, 0x0028,
      0xC7A5, 0xC810, 0x002B, 0xB2E8, 0xC810, 0x0020, 0xD63C, 0xC7AC, 0x0029, 0xC744, 0x0020,
      0xB300, 0xB7B5, 0x0020, 0xAD6C, 0xBD84, 0xD574, 0xC11C, 0x0020, 0xB300, 0xC751, 0xD55C,
      0xB2E4, 0x002E]),
     ([0x0020, 0x0020, 0x00B7, 0x0020, 0xACF5, 0xD1B5, 0x0020, 0xADDC, 0xCE59, 0x003A]),
     (asc ''    1) '' @ [0xB9AC, 0xBDF0, 0xC5D0, 0xC11C, 0x0020, 0xC911, 0xC694, 0xD55C, 0x0020,
      0xD45C, 0xD604, 0xC774, 0xB098, 0x0020, 0xBB38, 0xC7A5, 0xC744, 0x0020, 0xD55C, 0x0020,
      0xBC88, 0x0020, 0xC774, 0xC0C1, 0x0020, 0xADF8, 0xB300, 0xB85C, 0x0020, 0xC778, 0xC6A9,
      0xD558, 0xAC70, 0xB098, 0x0020, 0xBC14, 0xAFD4, 0x0020, 0xB9D0, 0xD574, 0x0020, 0xC900,
      0xB2E4, 0x002E]),
     (asc ''       ('' @ [0xC608, 0x003A, 0x0020, 0x201C, 0xD5C8, 0xB9AC, 0xB098, 0x0020, 0xC5B4,
      0xAE68, 0x0020, 0xBD80, 0xB2F4, 0xC774, 0x0020, 0xC904, 0xC5C8, 0xB2E4, 0xACE0, 0x0020,
      0xB9D0, 0xC500, 0xD574, 0x0020, 0xC8FC, 0xC154, 0xC11C, 0x0020, 0xC800, 0xD76C, 0xB3C4,
      0x0020, 0xAE30, 0xC069, 0xB2C8, 0xB2E4, 0x002E, 0x201D, 0x0029]),
     (asc ''    2) '' @ [0xB9AC, 0xBDF0, 0xC5B4, 0xB97C, 0x0020, 0xD0D3, 0xD558, 0xAC70, 0xB098,
      0x0020, 0xBC29, 0xC5B4, 0xC801, 0xC73C, 0xB85C, 0x0020, 0xB4E4, 0xB9AC, 0xB294, 0x0020,
      0xD45C, 0xD604, 0xC740, 0x0020, 0xC0AC, 0xC6A9, 0xD558, 0xC9C0, 0x0020, 0xC54A, 0xB294,
      0xB2E4, 0x002E]),
     ([0x0020, 0x0020, 0x00B7, 0x0020, 0xAE0D, 0xC815, 0x0020, 0xB9AC, 0xBDF0, 0xB85C, 0x0020,
      0xBCF4, 0xC774, 0xB294, 0x0020, 0xACBD, 0xC6B0, 0x003A]),
     (asc ''    1) '' @ [0xCCAB, 0x0020, 0xBB38, 0xC7A5, 0xC5D0, 0xC11C, 0x0020, 0xC9C4, 0xC2EC,
      0x0020, 0xC5B4, 0xB9B0, 0x0020, 0xAC10, 0xC0AC, 0x0020, 0xC778, 0xC0AC]),
     (asc ''    2) '' @ [0xB2E4, 0xC74C, 0x0020, 0xBB38, 0xC7A5, 0xC5D0, 0xC11C, 0x0020, 0xB9AC,
      0xBDF0, 0xC5D0, 0xC11C, 0x0020, 0xC5B8, 0xAE09, 0xD55C, 0x0020, 0xC7A5, 0xC810, 0xC744,
      0x0020, 0xC9DA, 0xC5B4, 0x0020, 0xC8FC, 0xACE0, 0x0020, 0xD568, 0xAED8, 0x0020, 0xAE30,
      0xBED0, 0xD558, 0xB294, 0x0020, 0xD45C, 0xD604]),
     (asc ''    3) '' @ [0xB9C8, 0xC9C0, 0xB9C9, 0x0020, 0xBB38, 0xC7A5, 0xC5D0, 0xC11C, 0x0020,
      0xC7AC, 0xAD6C, 0xB9E4, 0x002F, 0xC7AC, 0xBC29, 0xBB38, 0x0020, 0xC720, 0xB3C4, 0x0020,
      0xB610, 0xB294, 0x0020, 0xBE0C, 0xB79C, 0xB4DC, 0x002F, 0xC0C1, 0xD638, 0xBA85, 0x0020,
      0xC5B8, 0xAE09, 0xC73C, 0xB85C, 0x0020, 0xB9C8, 0xBB34, 0xB9AC]),
     ([0x0020, 0x0020, 0x00B7, 0x0020, 0xBD80, 0xC815, 0x0020, 0xB610, 0xB294, 0x0020, 0xC544,
      0xC26C, 0xC6B4, 0x0020, 0xB9AC, 0xBDF0, 0xB85C, 0x0020, 0xBCF4, 0xC774, 0xB294, 0x0020,
      0xACBD, 0xC6B0, 0x003A]),
     (asc ''    1) '' @ [0xCCAB, 0x0020, 0xBB38, 0xC7A5, 0xC5D0, 0xC11C, 0x0020, 0xC0AC, 0xACFC,
      0x002F, 0xACF5, 0xAC10, 0x0020, 0xD45C, 0xD604]),
     (asc ''    2) '' @ [0xB2E4, 0xC74C, 0x0020, 0xBB38, 0xC7A5, 0xC5D0, 0xC11C, 0x0020, 0xB9AC,
      0xBDF0, 0xC5D0, 0xC11C, 0x0020, 0xC5B8, 0xAE09, 0xD55C, 0x0020, 0xBD88, 0xD3B8, 0x0020,
      0xD3EC, 0xC778, 0xD2B8, 0xB97C, 0x0020, 0xB2E4, 0xC2DC, 0x0020, 0xC9DA, 0xACE0, 0x002C]),
     (asc ''       '' @ [0xAC1C, 0xC120, 0x0020, 0xC758, 0xC9C0, 0x0020, 0xB610, 0xB294, 0x0020,
      0xAD50, 0xD658, 0x002F, 0xD658, 0xBD88, 0x002F, 0xC810, 0xAC80, 0x0020, 0xB4F1, 0x0020,
      0xAD6C, 0xCCB4, 0xC801, 0xC778, 0x0020, 0xD574, 0xACB0, 0x0020, 0xBC29, 0xBC95, 0xC744,
      0x0020, 0xAC04, 0xB2E8, 0xD788, 0x0020, 0xC548, 0xB0B4]),
     (asc ''    3) '' @ [0xB9C8, 0xC9C0, 0xB9C9, 0x0020, 0xBB38, 0xC7A5, 0xC5D0, 0xC11C, 0x0020,
      0xAC10, 0xC0AC, 0x0020, 0xC778, 0xC0AC, 0x0020, 0xBC0F, 0x0020, 0xCD94, 0xAC00, 0x0020,
      0xBB38, 0xC758, 0x0020, 0xC548, 0xB0B4]),
     ([0x0020, 0x0020, 0x00B7, 0x0020, 0xC0AC, 0xC6A9, 0xBC95, 0x0020, 0xC548, 0xB0B4, 0xAC00,
      0x0020, 0xAF2D, 0x0020, 0xD544, 0xC694, 0xD55C, 0x0020, 0xB0B4, 0xC6A9, 0x0028, 0xC608,
      0x003A, 0x0020, 0x201C, 0xC5B4, 0xB5BB, 0xAC8C, 0x0020, 0xC4F0, 0xB294, 0xC9C0, 0x0020,
      0xBAA8, 0xB974, 0xACA0, 0xB2E4, 0x201D, 0x002C, 0x0020, 0x201C, 0xC870, 0xB9BD, 0xC774,
      0x0020, 0xD5F7, 0xAC08, 0xB9B0, 0xB2E4, 0x201D, 0x0020, 0xB4F1, 0x0029, 0xC774, 0x0020,
      0xC544, 0xB2CC, 0x0020, 0xACBD, 0xC6B0, 0xC5D0, 0xB294]),
     (asc ''    '' @ [0xC5B5, 0xC9C0, 0xB85C, 0x0020, 0xC0AC, 0xC6A9, 0x0020, 0xD301, 0xC744,
      0x0020, 0xC81C, 0xC2DC, 0xD558, 0xC9C0, 0x0020, 0xB9D0, 0xACE0, 0x002C, 0x0020, 0xBB38,
      0xC81C, 0x0020, 0xD574, 0xACB0, 0xACFC, 0x0020, 0xD6C4, 0xC18D, 0x0020, 0xC9C0, 0xC6D0,
      0x0028, 0xAD50, 0xD658, 0x002F, 0xD658, 0xBD88, 0x002F, 0xC810, 0xAC80, 0x0029, 0x0020,
      0xC911, 0xC2EC, 0xC73C, 0xB85C, 0x0020, 0xB2F5, 0xBCC0, 0xD55C, 0xB2E4, 0x002E])
    ]"

definition systemPrompt_lines :: "jstring list" where
  "systemPrompt_lines =
     sp_persona @ [] # sp_seller_style @ [] # sp_no_ai @ [] # sp_variation @ [] #
     sp_review_quote @ [] # sp_tone_rules @ [] # sp_general_rule @ [] # sp_claim_rule @ [] #
     sp_review_rule"

text \<open>
  The literal opens with a line feed before its first line and closes with one after its
  last; \<^verbatim>\<open>.trim()\<close> is applied to the whole.
\<close>

definition systemPrompt :: jstring where
  "systemPrompt = trim (0x0A # join_lines systemPrompt_lines @ [0x0A])"

text \<open>
  The template literal of \<^verbatim>\<open>userPrompt\<close>, source lines 125 to 135, over the texts
  that \<^verbatim>\<open>${toneValue}\<close>, \<^verbatim>\<open>${scenarioValue}\<close> and \<^verbatim>\<open>${text}\<close> insert.
\<close>

definition userPrompt :: "jstring \<Rightarrow> jstring \<Rightarrow> jstring \<Rightarrow> jstring" where
  "userPrompt toneText scenarioText text =
     trim (0x0A # join_lines
      [asc ''[tone]: '' @ toneText,
       asc ''[scenario]: '' @ scenarioText,
       [],
       [0x005B, 0xACE0, 0xAC1D, 0x0020, 0xD14D, 0xC2A4, 0xD2B8, 0x005D, 0x003A],
       text,
       [],
       [0xC704] @ asc '' [scenario]'' @ [0xC5D0, 0x0020, 0xB9DE, 0xB294, 0x0020, 0xC0C1, 0xD669,
        0xC774, 0xB77C, 0xACE0, 0x0020, 0xAC00, 0xC815, 0xD558, 0xACE0, 0x002C, 0x0020, 0xC704,
        0xC758, 0x0020, 0xADDC, 0xCE59, 0xC744, 0x0020, 0xC9C0, 0xD0A4, 0xBA74, 0xC11C, 0x0020,
        0xD558, 0xB098, 0xC758, 0x0020, 0xB2F5, 0xBCC0, 0xB9CC, 0x0020, 0xC791, 0xC131, 0xD574,
        0x0020, 0xC918, 0x002E],
       [0xBB38, 0xB2E8, 0xC740] @ asc '' 1~3'' @ [0xBB38, 0xB2E8, 0x0020, 0xC774, 0xB0B4, 0xB85C,
        0x0020, 0xC790, 0xC5F0, 0xC2A4, 0xB7FD, 0xAC8C, 0x0020, 0xB098, 0xB220, 0x0020, 0xC368,
        0x0020, 0xC918, 0x002E],
       [0xC751, 0xB2F5, 0xC5D0, 0xB294, 0x0020, 0xD55C, 0xAD6D, 0xC5B4, 0x0020, 0xB2F5, 0xBCC0,
        0x0020, 0xD14D, 0xC2A4, 0xD2B8, 0xB9CC, 0x0020, 0xC791, 0xC131, 0xD574, 0x0020, 0xC918,
        0x0020, 0x0028, 0xBA54, 0xD0C0, 0x0020, 0xC815, 0xBCF4, 0x002C, 0x0020, 0xB9AC, 0xC2A4,
        0xD2B8, 0x002C, 0x0020, 0xD5E4, 0xB354, 0x0020, 0xB4F1, 0x0020, 0xAE08, 0xC9C0, 0x0029,
        0x002E]]
      @ [0x0A])"

text \<open>The object handed to \<^verbatim>\<open>openai.responses.create\<close>, source lines 138 to 150.\<close>

definition create_call :: "jstring \<Rightarrow> jstring \<Rightarrow> create_params" where
  "create_call sys usr =
     \<lparr>cp_model = asc ''gpt-5-mini'',
      cp_input =
        [\<lparr>msg_role = asc ''system'',
          msg_content = [\<lparr>part_type = asc ''input_text'', part_text = sys\<rparr>]\<rparr>,
         \<lparr>msg_role = asc ''user'',
          msg_content = [\<lparr>part_type = asc ''input_text'', part_text = usr\<rparr>]\<rparr>]\<rparr>"

text \<open>The text a call carries in its messages of one role.\<close>

definition instruction_of :: "string \<Rightarrow> create_params \<Rightarrow> jstring" where
  "instruction_of role p =
     concat (map part_text
       (concat (map msg_content (filter (\<lambda>m. msg_role m = asc role) (cp_input p)))))"

section \<open>The handler\<close>

text \<open>
  The constants of the first lines of the \<^verbatim>\<open>try\<close> block, source lines 22 to 32, as
  functions of \<^verbatim>\<open>req.body\<close>. Destructuring reads the five fields from
  \<^verbatim>\<open>req.body || {}\<close>.
\<close>

definition field :: "jsval \<Rightarrow> string \<Rightarrow> jsval" where
  "field body name = own (js_or body (JObj [])) (asc name)"

definition toneValue :: "jsval \<Rightarrow> jsval" where
  "toneValue body = js_or (field body ''tone'') (JStr (asc ''friendly''))"

definition scenarioValue :: "jsval \<Rightarrow> jsval" where
  "scenarioValue body = js_or (field body ''scenario'') (JStr (asc ''general''))"

text \<open>\<^verbatim>\<open>(clipboardText || '').toString().trim()\<close>\<close>

definition text_of :: "jsval \<Rightarrow> fault + jstring" where
  "text_of body =
     (case toString (js_or (field body ''clipboardText'') (JStr [])) of
        Inl e \<Rightarrow> Inl e
      | Inr s \<Rightarrow> Inr (trim s))"

definition pro_credential :: jstring where
  "pro_credential = asc ''GOOD_SELLER_2025''"

definition isPro_of :: "jsval \<Rightarrow> bool" where
  "isPro_of body = (field body ''licenseKey'' = JStr pro_credential)"

definition limit_of :: "bool \<Rightarrow> nat" where
  "limit_of pro = (if pro then 999 else 5)"

text \<open>
  \<^verbatim>\<open>`usage:${clientId || 'anon'}:${todayStr()}`\<close>, with the date that \<^verbatim>\<open>todayStr()\<close>
  reads from the clock (the UTC day, \<^verbatim>\<open>YYYY-MM-DD\<close>) as an argument.
\<close>

definition key_of :: "jsval \<Rightarrow> jstring \<Rightarrow> fault + jstring" where
  "key_of body today =
     (case toString (js_or (field body ''clientId'') (JStr (asc ''anon''))) of
        Inl e \<Rightarrow> Inl e
      | Inr cid \<Rightarrow> Inr (asc ''usage:'' @ cid @ asc '':'' @ today))"

text \<open>
  The part of that key that names the client, the text of \<^verbatim>\<open>clientId || 'anon'\<close>,
  and the key of a client's text and a day written out:
  \<^verbatim>\<open>usage:${clientId}:${YYYY-MM-DD}\<close> (the comment of source line 12).
\<close>

definition client_of :: "jsval \<Rightarrow> fault + jstring" where
  "client_of body = toString (js_or (field body ''clientId'') (JStr (asc ''anon'')))"

abbreviation usage_key :: "jstring \<Rightarrow> jstring \<Rightarrow> jstring" where
  "usage_key cid today \<equiv> asc ''usage:'' @ cid @ asc '':'' @ today"

text \<open>\<^verbatim>\<open>usageCounter.get(key) || 0\<close>\<close>

definition used_of :: "counter \<Rightarrow> jstring \<Rightarrow> nat" where
  "used_of usageCounter key = (case usageCounter key of None \<Rightarrow> 0 | Some c \<Rightarrow> c)"

text \<open>
  The handler runs without interruption up to \<^verbatim>\<open>await openai.responses.create\<close>:
  either it has answered by then, or it is suspended on the call with its local constants.
\<close>

record pending =
  p_key :: jstring
  p_used :: nat
  p_limit :: nat
  p_isPro :: bool
  p_params :: create_params

datatype progress = Responded http_response | Awaiting pending

text \<open>
  Source lines 22 to 135, with the counter as it is left, also when a fault is thrown
  after \<^verbatim>\<open>usageCounter.set\<close>.
\<close>

definition try_block_sync :: "counter \<Rightarrow> jstring \<Rightarrow> jsval \<Rightarrow> counter \<times> (fault + progress)" where
  "try_block_sync usageCounter today body =
     (case text_of body of
        Inl e \<Rightarrow> (usageCounter, Inl e)
      | Inr text \<Rightarrow>
     (case key_of body today of
        Inl e \<Rightarrow> (usageCounter, Inl e)
      | Inr key \<Rightarrow>
     (let pro = isPro_of body;
          limit = limit_of pro;
          used = used_of usageCounter key
      in if \<not> pro \<and> used \<ge> limit
         then (usageCounter,
               Inr (Responded
                 \<lparr>status = 200,
                  json = \<lparr>ok = False, reply = [], todayUsage = used, todayLimit = limit,
                          isPro = pro, message = msg_quota\<rparr>\<rparr>))
         else
          (let usageCounter' = usageCounter(key \<mapsto> used + 1)
           in case toString (toneValue body) of
                Inl e \<Rightarrow> (usageCounter', Inl e)
              | Inr toneText \<Rightarrow>
             (case toString (scenarioValue body) of
                Inl e \<Rightarrow> (usageCounter', Inl e)
              | Inr scenarioText \<Rightarrow>
                 (usageCounter',
                  Inr (Awaiting
                    \<lparr>p_key = key, p_used = used, p_limit = limit, p_isPro = pro,
                     p_params =
                       create_call systemPrompt (userPrompt toneText scenarioText text)\<rparr>)))))))"

text \<open>Source lines 153 to 164: the two loops that collect the \<^verbatim>\<open>output_text\<close> parts.\<close>

fun content_loop :: "jsval list \<Rightarrow> jstring \<Rightarrow> fault + jstring" where
  "content_loop [] replyText = Inr replyText"
| "content_loop (c # cs) replyText =
     (case get_prop c (asc ''type'') of
        Inl e \<Rightarrow> Inl e
      | Inr ty \<Rightarrow>
          (if ty = JStr (asc ''output_text'')
           then (case own c (asc ''text'') of
                   JStr t \<Rightarrow> content_loop cs (replyText @ t)
                 | _ \<Rightarrow> content_loop cs replyText)
           else content_loop cs replyText))"

fun output_loop :: "jsval list \<Rightarrow> jstring \<Rightarrow> fault + jstring" where
  "output_loop [] replyText = Inr replyText"
| "output_loop (item # items) replyText =
     (let content = opt_prop item (asc ''content'')
      in if \<not> truthy content then output_loop items replyText
         else (case iterate content of
                 Inl e \<Rightarrow> Inl e
               | Inr cs \<Rightarrow>
                   (case content_loop cs replyText of
                      Inl e \<Rightarrow> Inl e
                    | Inr replyText' \<Rightarrow> output_loop items replyText')))"

definition collect_output_text :: "jsval \<Rightarrow> fault + jstring" where
  "collect_output_text ai =
     (if truthy ai
      then (case own ai (asc ''output'') of
              JArr items \<Rightarrow> output_loop items []
            | _ \<Rightarrow> Inr [])
      else Inr [])"

text \<open>
  Source lines 152 to 187, run when the provider's promise has resolved, over the counter
  as it is then: \<^verbatim>\<open>usageCounter.get(key) || used + 1\<close>.
\<close>

definition try_block_resume :: "counter \<Rightarrow> pending \<Rightarrow> jsval \<Rightarrow> fault + http_response" where
  "try_block_resume usageCounter p ai =
     (case collect_output_text ai of
        Inl e \<Rightarrow> Inl e
      | Inr collected \<Rightarrow>
     (let replyText = trim collected;
          usage = (case usageCounter (p_key p) of
                     None \<Rightarrow> p_used p + 1
                   | Some c \<Rightarrow> if c = 0 then p_used p + 1 else c)
      in if replyText = []
         then Inr \<lparr>status = 200,
                   json = \<lparr>ok = False, reply = [], todayUsage = usage, todayLimit = p_limit p,
                           isPro = p_isPro p, message = msg_retry\<rparr>\<rparr>
         else Inr \<lparr>status = 200,
                   json = \<lparr>ok = True, reply = replyText, todayUsage = usage,
                           todayLimit = p_limit p, isPro = p_isPro p,
                           message = (if p_isPro p then msg_done_pro else msg_done)\<rparr>\<rparr>))"

text \<open>
  The whole \<^verbatim>\<open>try\<close> block of one request served without another request in
  between: the counter it leaves, the calls it made to the provider, and its answer or
  the fault it threw.
\<close>

definition try_block ::
  "provider \<Rightarrow> counter \<Rightarrow> jstring \<Rightarrow> jsval \<Rightarrow>
     counter \<times> create_params list \<times> (fault + http_response)" where
  "try_block openai usageCounter today body =
     (case try_block_sync usageCounter today body of
        (usageCounter', Inl e) \<Rightarrow> (usageCounter', [], Inl e)
      | (usageCounter', Inr (Responded r)) \<Rightarrow> (usageCounter', [], Inr r)
      | (usageCounter', Inr (Awaiting p)) \<Rightarrow>
          (case openai (p_params p) of
             Rejects \<Rightarrow> (usageCounter', [p_params p], Inl ProviderFault)
           | Resolves ai \<Rightarrow>
               (usageCounter', [p_params p], try_block_resume usageCounter' p ai)))"

text \<open>
  The \<^verbatim>\<open>catch\<close> block, source lines 188 to 200: its answer. The line it writes to
  the log with \<^verbatim>\<open>console.error\<close> is not part of the answer and is left out.
\<close>

definition catch_block :: http_response where
  "catch_block =
     \<lparr>status = 200,
      json = \<lparr>ok = False, reply = [], todayUsage = 0, todayLimit = 5, isPro = False,
              message = msg_server_error\<rparr>\<rparr>"

record outcome =
  counter_after :: counter
  calls :: "create_params list"
  response :: http_response

definition generateHandler :: "provider \<Rightarrow> counter \<Rightarrow> jstring \<Rightarrow> jsval \<Rightarrow> outcome" where
  "generateHandler openai usageCounter today body =
     (case try_block openai usageCounter today body of
        (usageCounter', cs, Inl e) \<Rightarrow>
          \<lparr>counter_after = usageCounter', calls = cs, response = catch_block\<rparr>
      | (usageCounter', cs, Inr r) \<Rightarrow>
          \<lparr>counter_after = usageCounter', calls = cs, response = r\<rparr>)"

text \<open>
  Requests served one after the other on the same day, each with the provider as it
  answers at that moment.
\<close>

fun serve :: "counter \<Rightarrow> jstring \<Rightarrow> (provider \<times> jsval) list \<Rightarrow> outcome list" where
  "serve usageCounter today [] = []"
| "serve usageCounter today ((openai, body) # rest) =
     (let out = generateHandler openai usageCounter today body
      in out # serve (counter_after out) today rest)"

section \<open>Reading the composed instruction\<close>

text \<open>
  To state where a passage stands in the system instruction, the instruction is cut into
  its lines and the lines of one scenario's rule are taken: those after the heading of
  the scenario, up to the next heading.
\<close>

fun split_lines :: "jstring \<Rightarrow> jstring list" where
  "split_lines [] = [[]]"
| "split_lines (c # cs) =
     (if c = 0x0A then [] # split_lines cs
      else (case split_lines cs of [] \<Rightarrow> [[c]] | l # ls \<Rightarrow> (c # l) # ls))"

fun starts_with :: "jstring \<Rightarrow> jstring \<Rightarrow> bool" where
  "starts_with [] s = True"
| "starts_with (p # ps) [] = False"
| "starts_with (p # ps) (c # cs) = (p = c \<and> starts_with ps cs)"

fun occurs :: "jstring \<Rightarrow> jstring \<Rightarrow> bool" where
  "occurs p [] = (p = [])"
| "occurs p (c # cs) = (starts_with p (c # cs) \<or> occurs p cs)"

text \<open>The heading of a scenario's rule: \<^verbatim>\<open>- scenarioValue === "claim":\<close>\<close>

definition scenario_heading :: "string \<Rightarrow> jstring" where
  "scenario_heading name = asc ''- scenarioValue === '' @ [0x22] @ asc name @ [0x22, 0x3A]"

definition is_heading :: "jstring \<Rightarrow> bool" where
  "is_heading l = starts_with (asc ''- scenarioValue === '') l"

definition scenario_rule :: "string \<Rightarrow> jstring \<Rightarrow> jstring list" where
  "scenario_rule name instruction =
     takeWhile (\<lambda>l. \<not> is_heading l)
       (drop 1 (dropWhile (\<lambda>l. l \<noteq> scenario_heading name) (split_lines instruction)))"

text \<open>The position of the first line in which a passage occurs.\<close>

fun first_line_with :: "jstring \<Rightarrow> jstring list \<Rightarrow> nat option" where
  "first_line_with p [] = None"
| "first_line_with p (l # ls) =
     (if occurs p l then Some 0 else map_option Suc (first_line_with p ls))"

text \<open>
  The passages of the claim rule, source lines 98 to 101: "in this order without fail",
  "apology/empathy", "way of resolving", "procedure", "further inquiry", "word of thanks".
\<close>

definition kw_order :: jstring where
  "kw_order = [0xBC18, 0xB4DC, 0xC2DC, 0x0020, 0xC774, 0x0020, 0xC21C, 0xC11C]"

definition kw_apology :: jstring where
  "kw_apology = [0xC0AC, 0xACFC, 0x002F, 0xACF5, 0xAC10]"

definition kw_remedy :: jstring where
  "kw_remedy = [0xD574, 0xACB0, 0x0020, 0xBC29, 0xBC95]"

definition kw_procedure :: jstring where
  "kw_procedure = [0xC9C4, 0xD589, 0x0020, 0xC808, 0xCC28]"

definition kw_further :: jstring where
  "kw_further = [0xCD94, 0xAC00, 0x0020, 0xBB38, 0xC758]"

definition kw_thanks :: jstring where
  "kw_thanks = [0xAC10, 0xC0AC, 0x0020, 0xC778, 0xC0AC]"

section \<open>The extraction the specification describes\<close>

text \<open>
  The specification takes the provider's result as an ordered sequence of output
  segments, each with its content parts, and asks for the text of every part whose kind
  marks it as generated text, across all segments and in order, then trimmed. A result
  of the provider is read into that shape, and \<open>spec_extract\<close> follows these words.
\<close>

datatype content_part = GeneratedText jstring | OtherKind

definition part_of :: "jsval \<Rightarrow> content_part" where
  "part_of c =
     (case own c (asc ''text'') of
        JStr t \<Rightarrow> if own c (asc ''type'') = JStr (asc ''output_text'') then GeneratedText t
                  else OtherKind
      | _ \<Rightarrow> OtherKind)"

definition parts_of :: "jsval \<Rightarrow> content_part list" where
  "parts_of item = (case own item (asc ''content'') of JArr cs \<Rightarrow> map part_of cs | _ \<Rightarrow> [])"

definition segments_of :: "jsval \<Rightarrow> jsval list" where
  "segments_of ai = (case own ai (asc ''output'') of JArr items \<Rightarrow> items | _ \<Rightarrow> [])"

fun text_of_part :: "content_part \<Rightarrow> jstring" where
  "text_of_part (GeneratedText t) = t"
| "text_of_part OtherKind = []"

definition spec_extract :: "content_part list list \<Rightarrow> jstring" where
  "spec_extract segs = trim (concat (map text_of_part (concat segs)))"

text \<open>
  The shapes the extraction has to bear: any number of segments, none included; a segment
  without content (or that is \<^verbatim>\<open>null\<close>); content parts of any kind. What is left out
  is a content that is neither an array nor a text, and a part that is \<^verbatim>\<open>null\<close>.
\<close>

definition segment_ok :: "jsval \<Rightarrow> bool" where
  "segment_ok item =
     (case opt_prop item (asc ''content'') of
        JArr cs \<Rightarrow> list_all (\<lambda>c. \<not> nullish c) cs
      | JStr s \<Rightarrow> True
      | v \<Rightarrow> \<not> truthy v)"

definition shape_ok :: "jsval \<Rightarrow> bool" where
  "shape_ok ai = list_all segment_ok (segments_of ai)"

section \<open>Providers, results and requests used as examples\<close>

definition provider_down :: provider where
  "provider_down params = Rejects"

definition provider_returns :: "jsval \<Rightarrow> provider" where
  "provider_returns ai params = Resolves ai"

text \<open>
  A result with four segments: a reasoning item without content, a message with a refusal
  part and a text part, a \<^verbatim>\<open>null\<close> and a message with one text part.
\<close>

definition mixed_result :: jsval where
  "mixed_result =
     JObj [(asc ''output'', JArr
       [JObj [(asc ''type'', JStr (asc ''reasoning''))],
        JObj [(asc ''content'', JArr
          [JObj [(asc ''type'', JStr (asc ''refusal'')), (asc ''refusal'', JStr (asc ''no''))],
           JObj [(asc ''type'', JStr (asc ''output_text'')),
                 (asc ''text'', JStr (asc '' ab''))]])],
        JNull,
        JObj [(asc ''content'', JArr
          [JObj [(asc ''type'', JStr (asc ''output_text'')),
                 (asc ''text'', JStr (asc ''cd ''))]])]])]"

text \<open>A result without segments, and one whose only content part is \<^verbatim>\<open>null\<close>.\<close>

definition empty_result :: jsval where
  "empty_result = JObj [(asc ''output'', JArr [])]"

definition broken_result :: jsval where
  "broken_result = JObj [(asc ''output'', JArr [JObj [(asc ''content'', JArr [JNull])]])]"

text \<open>Requests: of a free client, of a pro client, and with fields that are not texts.\<close>

definition free_request :: jsval where
  "free_request =
     JObj [(asc ''licenseKey'', JStr []),
           (asc ''tone'', JStr (asc ''friendly'')),
           (asc ''scenario'', JStr (asc ''general'')),
           (asc ''clipboardText'', JStr (asc '' hello '')),
           (asc ''clientId'', JStr (asc ''cs_test_1''))]"

definition pro_request :: jsval where
  "pro_request =
     JObj [(asc ''licenseKey'', JStr (asc ''GOOD_SELLER_2025'')),
           (asc ''tone'', JStr (asc ''friendly'')),
           (asc ''scenario'', JStr (asc ''general'')),
           (asc ''clipboardText'', JStr (asc '' hello '')),
           (asc ''clientId'', JStr (asc ''cs_test_2''))]"

definition angry_request :: jsval where
  "angry_request =
     JObj [(asc ''tone'', JStr (asc ''angry'')),
           (asc ''scenario'', JStr (asc ''refund'')),
           (asc ''clipboardText'', JStr (asc ''hello'')),
           (asc ''clientId'', JStr (asc ''cs_test_1''))]"

definition business_claim_request :: jsval where
  "business_claim_request =
     JObj [(asc ''tone'', JStr (asc ''business'')),
           (asc ''scenario'', JStr (asc ''claim'')),
           (asc ''clipboardText'', JStr (asc ''hello''))]"

definition odd_tone_request :: jsval where
  "odd_tone_request =
     JObj [(asc ''licenseKey'', JStr (asc ''GOOD_SELLER_2025'')),
           (asc ''tone'', JObj [(asc ''toString'', JBool True)]),
           (asc ''clipboardText'', JStr (asc ''hello'')),
           (asc ''clientId'', JStr (asc ''cs_test_2''))]"

text \<open>A free request of a second client, with no other field.\<close>

definition other_request :: jsval where
  "other_request = JObj [(asc ''clientId'', JStr (asc ''cs_test_2''))]"

definition day :: jstring where
  "day = asc ''2025-11-03''"

text \<open>
  A counter in the middle of a day: the first client was at its limit the day before and
  the second client is at its limit today.
\<close>

definition busy_counter :: counter where
  "busy_counter =
     [asc ''usage:cs_test_1:2025-11-02'' \<mapsto> 5, asc ''usage:cs_test_2:2025-11-03'' \<mapsto> 5]"

text \<open>
  Ten requests of one day: seven of the first client, free, with two free requests and
  one pro request of the second client in between.
\<close>

definition mixed_day :: "(provider \<times> jsval) list" where
  "mixed_day =
     [(provider_returns mixed_result, free_request),
      (provider_down, other_request),
      (provider_returns empty_result, free_request),
      (provider_down, free_request),
      (provider_returns mixed_result, pro_request),
      (provider_returns mixed_result, free_request),
      (provider_returns mixed_result, free_request),
      (provider_returns mixed_result, other_request),
      (provider_returns mixed_result, free_request),
      (provider_returns mixed_result, free_request)]"

section \<open>Trimming and the lines of a template literal\<close>

lemma trimEnd_keep: "s \<noteq> [] \<Longrightarrow> \<not> is_ws (last s) \<Longrightarrow> trimEnd s = s"
proof (induction s)
  case Nil
  then show ?case by simp
next
  case (Cons c cs)
  show ?case
  proof (cases "cs = []")
    case True
    with Cons.prems show ?thesis by simp
  next
    case False
    with Cons have "trimEnd cs = cs" by simp
    with False show ?thesis by (simp split: list.splits)
  qed
qed

lemma trimEnd_snoc_ws: "is_ws c \<Longrightarrow> trimEnd (s @ [c]) = trimEnd s"
  by (induction s) (auto split: list.splits)

lemma is_ws_lf: "is_ws 0x0A"
  by (simp add: is_ws_def)

lemma trim_wrapped:
  "s \<noteq> [] \<Longrightarrow> \<not> is_ws (hd s) \<Longrightarrow> \<not> is_ws (last s) \<Longrightarrow> trim (0x0A # s @ [0x0A]) = s"
proof -
  assume a: "s \<noteq> []" "\<not> is_ws (hd s)" "\<not> is_ws (last s)"
  then have "dropWhile is_ws (s @ [0x0A]) = s @ [0x0A]"
    by (cases s) auto
  then show ?thesis
    using a by (simp add: trim_def is_ws_lf trimEnd_snoc_ws trimEnd_keep)
qed

lemma join_lines_Nil_iff: "join_lines ls = [] \<longleftrightarrow> ls = [] \<or> ls = [[]]"
  by (induction ls rule: join_lines.induct) auto

lemma hd_join_lines: "l \<noteq> [] \<Longrightarrow> hd (join_lines (l # ls)) = hd l"
  by (cases ls) auto

lemma last_join_lines: "ls \<noteq> [] \<Longrightarrow> last ls \<noteq> [] \<Longrightarrow> last (join_lines ls) = last (last ls)"
  by (induction ls rule: join_lines.induct) (auto simp: join_lines_Nil_iff)

lemma split_lines_append:
  "0x0A \<notin> set l \<Longrightarrow> split_lines (l @ 0x0A # s) = l # split_lines s"
  by (induction l) auto

lemma split_lines_line: "0x0A \<notin> set l \<Longrightarrow> split_lines l = [l]"
  by (induction l) auto

lemma split_join_lines:
  "ls \<noteq> [] \<Longrightarrow> \<forall>l \<in> set ls. 0x0A \<notin> set l \<Longrightarrow> split_lines (join_lines ls) = ls"
  by (induction ls rule: join_lines.induct) (auto simp: split_lines_append split_lines_line)


lemma hd_join_lines': "ls \<noteq> [] \<Longrightarrow> hd ls \<noteq> [] \<Longrightarrow> hd (join_lines ls) = hd (hd ls)"
  by (cases ls) (simp_all add: hd_join_lines)

lemma sp_persona_first: "sp_persona \<noteq> [] \<and> hd sp_persona \<noteq> [] \<and> hd (hd sp_persona) = 0xB108"
  by (simp add: sp_persona_def)

lemma sp_review_rule_last:
  "sp_review_rule \<noteq> [] \<and> last sp_review_rule \<noteq> [] \<and> last (last sp_review_rule) = 0x2E"
  by (simp add: sp_review_rule_def)

lemma systemPrompt_lines_ends:
  "systemPrompt_lines \<noteq> [] \<and> hd systemPrompt_lines = hd sp_persona
   \<and> last systemPrompt_lines = last sp_review_rule"
  using sp_persona_first sp_review_rule_last by (simp add: systemPrompt_lines_def)

lemma systemPrompt_eq: "systemPrompt = join_lines systemPrompt_lines"
  unfolding systemPrompt_def
proof (rule trim_wrapped)
  show "join_lines systemPrompt_lines \<noteq> []"
  proof
    assume "join_lines systemPrompt_lines = []"
    then have "systemPrompt_lines = [[]]"
      using systemPrompt_lines_ends by (simp add: join_lines_Nil_iff)
    then have "hd systemPrompt_lines = []" by (metis list.sel(1))
    then show False
      using systemPrompt_lines_ends sp_persona_first by metis
  qed
  show "\<not> is_ws (hd (join_lines systemPrompt_lines))"
    using systemPrompt_lines_ends sp_persona_first
    by (simp add: hd_join_lines' is_ws_def)
  show "\<not> is_ws (last (join_lines systemPrompt_lines))"
    using systemPrompt_lines_ends sp_review_rule_last
    by (simp add: last_join_lines is_ws_def)
qed

lemma no_lf_persona: "\<forall>l \<in> set sp_persona. 0x0A \<notin> set l"
  by (simp add: sp_persona_def asc_def)

lemma no_lf_seller_style: "\<forall>l \<in> set sp_seller_style. 0x0A \<notin> set l"
  by (simp add: sp_seller_style_def asc_def)

lemma no_lf_no_ai: "\<forall>l \<in> set sp_no_ai. 0x0A \<notin> set l"
  by (simp add: sp_no_ai_def asc_def)

lemma no_lf_variation: "\<forall>l \<in> set sp_variation. 0x0A \<notin> set l"
  by (simp add: sp_variation_def asc_def)

lemma no_lf_review_quote: "\<forall>l \<in> set sp_review_quote. 0x0A \<notin> set l"
  by (simp add: sp_review_quote_def asc_def)

lemma no_lf_tone_rules: "\<forall>l \<in> set sp_tone_rules. 0x0A \<notin> set l"
  by (simp add: sp_tone_rules_def asc_def)

lemma no_lf_general_rule: "\<forall>l \<in> set sp_general_rule. 0x0A \<notin> set l"
  by (simp add: sp_general_rule_def asc_def)

lemma no_lf_claim_rule: "\<forall>l \<in> set sp_claim_rule. 0x0A \<notin> set l"
  by (simp add: sp_claim_rule_def asc_def)

lemma no_lf_review_rule: "\<forall>l \<in> set sp_review_rule. 0x0A \<notin> set l"
  by (simp add: sp_review_rule_def asc_def)

lemma no_lf_lines: "\<forall>l \<in> set systemPrompt_lines. 0x0A \<notin> set l"
  using no_lf_persona no_lf_seller_style no_lf_no_ai no_lf_variation no_lf_review_quote
    no_lf_tone_rules no_lf_general_rule no_lf_claim_rule no_lf_review_rule
  by (simp add: systemPrompt_lines_def ball_Un)

lemma lines_systemPrompt: "split_lines systemPrompt = systemPrompt_lines"
  unfolding systemPrompt_eq
  using systemPrompt_lines_ends no_lf_lines by (simp add: split_join_lines)

lemma no_claim_heading_persona: "\<forall>l \<in> set sp_persona. l \<noteq> scenario_heading ''claim''"
  by (simp add: sp_persona_def scenario_heading_def asc_def)

lemma no_claim_heading_seller_style: "\<forall>l \<in> set sp_seller_style. l \<noteq> scenario_heading ''claim''"
  by (simp add: sp_seller_style_def scenario_heading_def asc_def)

lemma no_claim_heading_no_ai: "\<forall>l \<in> set sp_no_ai. l \<noteq> scenario_heading ''claim''"
  by (simp add: sp_no_ai_def scenario_heading_def asc_def)

lemma no_claim_heading_variation: "\<forall>l \<in> set sp_variation. l \<noteq> scenario_heading ''claim''"
  by (simp add: sp_variation_def scenario_heading_def asc_def)

lemma no_claim_heading_review_quote: "\<forall>l \<in> set sp_review_quote. l \<noteq> scenario_heading ''claim''"
  by (simp add: sp_review_quote_def scenario_heading_def asc_def)

lemma no_claim_heading_tone_rules: "\<forall>l \<in> set sp_tone_rules. l \<noteq> scenario_heading ''claim''"
  by (simp add: sp_tone_rules_def scenario_heading_def asc_def)

lemma no_claim_heading_general_rule: "\<forall>l \<in> set sp_general_rule. l \<noteq> scenario_heading ''claim''"
  by (simp add: sp_general_rule_def scenario_heading_def asc_def)

lemma dropWhile_stops_append:
  "xs \<noteq> [] \<Longrightarrow> \<not> P (hd xs) \<Longrightarrow> dropWhile P (xs @ ys) = xs @ ys"
  by (cases xs) auto

lemma drop_one_append: "xs \<noteq> [] \<Longrightarrow> drop 1 (xs @ ys) = tl xs @ ys"
  by (cases xs) auto

lemma claim_rule_shape:
  "sp_claim_rule \<noteq> [] \<and> hd sp_claim_rule = scenario_heading ''claim''
   \<and> (\<forall>l \<in> set (tl sp_claim_rule). \<not> is_heading l)"
  by (simp add: sp_claim_rule_def scenario_heading_def is_heading_def asc_def)

lemma review_rule_shape: "takeWhile (\<lambda>l. \<not> is_heading l) sp_review_rule = []"
  by (simp add: sp_review_rule_def is_heading_def asc_def)

lemma empty_no_heading: "\<not> is_heading [] \<and> [] \<noteq> scenario_heading ''claim''"
  by (simp add: is_heading_def scenario_heading_def asc_def)

lemma claim_rule_lines: "scenario_rule ''claim'' systemPrompt = tl sp_claim_rule @ [[]]"
proof -
  let ?H = "scenario_heading ''claim''"
  let ?Q = "\<lambda>l. \<not> is_heading l"
  let ?before = "sp_persona @ [] # sp_seller_style @ [] # sp_no_ai @ [] # sp_variation @ [] #
     sp_review_quote @ [] # sp_tone_rules @ [] # sp_general_rule @ [[]]"
  let ?rest = "[] # sp_review_rule"
  have lines: "systemPrompt_lines = ?before @ sp_claim_rule @ ?rest"
    by (simp add: systemPrompt_lines_def)
  have before: "\<And>l. l \<in> set ?before \<Longrightarrow> l \<noteq> ?H"
    using no_claim_heading_persona no_claim_heading_seller_style no_claim_heading_no_ai
      no_claim_heading_variation no_claim_heading_review_quote no_claim_heading_tone_rules
      no_claim_heading_general_rule empty_no_heading
    by auto
  have "dropWhile (\<lambda>l. l \<noteq> ?H) systemPrompt_lines = dropWhile (\<lambda>l. l \<noteq> ?H) (sp_claim_rule @ ?rest)"
    unfolding lines by (rule dropWhile_append2) (rule before)
  also have "\<dots> = sp_claim_rule @ ?rest"
    using claim_rule_shape by (intro dropWhile_stops_append) simp_all
  finally have d: "dropWhile (\<lambda>l. l \<noteq> ?H) systemPrompt_lines = sp_claim_rule @ ?rest" .
  have dr: "drop 1 (sp_claim_rule @ ?rest) = tl sp_claim_rule @ ?rest"
    by (rule drop_one_append) (simp add: claim_rule_shape)
  have tw: "takeWhile ?Q (tl sp_claim_rule @ ?rest) = tl sp_claim_rule @ takeWhile ?Q ?rest"
    by (rule takeWhile_append2) (simp add: claim_rule_shape)
  have tr: "takeWhile ?Q ?rest = [[]]"
    using review_rule_shape empty_no_heading by simp
  show ?thesis
    unfolding scenario_rule_def lines_systemPrompt d dr tw tr ..
qed

lemma instruction_of_create_call:
  "instruction_of ''system'' (create_call sys usr) = sys"
  "instruction_of ''user'' (create_call sys usr) = usr"
  by (simp_all add: instruction_of_def create_call_def asc_def)

text \<open>
  C8. For the claim scenario the composed system instruction lays down an ordered
  three-part structure. In the instruction of a call composed for scenario
  \<^verbatim>\<open>claim\<close>, the rule of the claim scenario first says that the structure is to be
  kept "in this order without fail" (its line 1), then names apology and empathy in the
  part numbered 1 (line 2), the way of resolving and the procedure in the part numbered
  2 (line 3), and the further inquiry with the word of thanks in the part numbered 3
  (line 4): each passage occurs first on its own line, and the lines follow in that order.
\<close>

theorem claim_rule_order:
  "let rule = scenario_rule ''claim''
        (instruction_of ''system''
          (create_call systemPrompt (userPrompt toneText (asc ''claim'') text)))
   in first_line_with kw_order rule = Some 1
    \<and> first_line_with kw_apology rule = Some 2
    \<and> first_line_with kw_remedy rule = Some 3
    \<and> first_line_with kw_procedure rule = Some 3
    \<and> first_line_with kw_further rule = Some 4
    \<and> first_line_with kw_thanks rule = Some 4
    \<and> starts_with (asc ''    1) '') (rule ! 2)
    \<and> starts_with (asc ''    2) '') (rule ! 3)
    \<and> starts_with (asc ''    3) '') (rule ! 4)"
  unfolding instruction_of_create_call claim_rule_lines Let_def
  by (simp add: sp_claim_rule_def asc_def kw_order_def kw_apology_def kw_remedy_def
      kw_procedure_def kw_further_def kw_thanks_def)

section \<open>The handler, step by step\<close>

lemma sync_fault_text:
  "text_of body = Inl e \<Longrightarrow> try_block_sync m d body = (m, Inl e)"
  by (simp add: try_block_sync_def)

lemma sync_fault_key:
  "text_of body = Inr t \<Longrightarrow> key_of body d = Inl e \<Longrightarrow> try_block_sync m d body = (m, Inl e)"
  by (simp add: try_block_sync_def)

lemma sync_reject:
  "text_of body = Inr t \<Longrightarrow> key_of body d = Inr k \<Longrightarrow> \<not> isPro_of body \<Longrightarrow> 5 \<le> used_of m k \<Longrightarrow>
   try_block_sync m d body =
     (m, Inr (Responded \<lparr>status = 200,
        json = \<lparr>ok = False, reply = [], todayUsage = used_of m k, todayLimit = 5,
                isPro = False, message = msg_quota\<rparr>\<rparr>))"
  by (simp add: try_block_sync_def limit_of_def)

lemma sync_admit:
  "text_of body = Inr t \<Longrightarrow> key_of body d = Inr k \<Longrightarrow>
   isPro_of body \<or> used_of m k < limit_of (isPro_of body) \<Longrightarrow>
   try_block_sync m d body =
     (m(k \<mapsto> used_of m k + 1),
      case toString (toneValue body) of
        Inl e \<Rightarrow> Inl e
      | Inr toneText \<Rightarrow>
          (case toString (scenarioValue body) of
             Inl e \<Rightarrow> Inl e
           | Inr scenarioText \<Rightarrow>
               Inr (Awaiting
                 \<lparr>p_key = k, p_used = used_of m k, p_limit = limit_of (isPro_of body),
                  p_isPro = isPro_of body,
                  p_params = create_call systemPrompt (userPrompt toneText scenarioText t)\<rparr>)))"
  by (auto simp add: try_block_sync_def limit_of_def Let_def split: sum.splits)

lemma handler_counter:
  "counter_after (generateHandler openai m d body) = fst (try_block_sync m d body)"
  by (auto simp add: generateHandler_def try_block_def
      split: sum.splits prod.splits progress.splits provider_result.splits)

lemma resume_status:
  "try_block_resume m p ai = Inr r \<Longrightarrow> status r = 200"
  by (auto simp add: try_block_resume_def Let_def split: sum.splits if_splits)

lemma msgs_differ:
  "msg_server_error \<noteq> msg_quota" "msg_retry \<noteq> msg_quota" "msg_done \<noteq> msg_quota"
  "msg_done_pro \<noteq> msg_quota"
  by (simp_all add: msg_server_error_def msg_quota_def msg_retry_def msg_done_def
      msg_done_pro_def)

lemma resume_envelope:
  "try_block_resume m p ai = Inr r \<Longrightarrow>
   isPro (json r) = p_isPro p \<and> todayLimit (json r) = p_limit p \<and> message (json r) \<noteq> msg_quota"
  by (auto simp add: try_block_resume_def Let_def msgs_differ split: sum.splits if_splits)

lemma sync_pro:
  "isPro_of body \<Longrightarrow> try_block_sync m d body = (m', Inr (Responded r)) \<Longrightarrow> False"
  by (auto simp add: try_block_sync_def Let_def split: sum.splits if_splits)

lemma sync_pending:
  "try_block_sync m d body = (m', Inr (Awaiting p)) \<Longrightarrow>
   p_isPro p = isPro_of body \<and> p_limit p = limit_of (isPro_of body)"
  by (auto simp add: try_block_sync_def Let_def split: sum.splits if_splits)

lemma handler_calls:
  "c \<in> set (calls (generateHandler openai m d body)) \<Longrightarrow>
   \<exists>text toneText scenarioText.
     text_of body = Inr text \<and> toString (toneValue body) = Inr toneText
     \<and> toString (scenarioValue body) = Inr scenarioText
     \<and> c = create_call systemPrompt (userPrompt toneText scenarioText text)"
  by (auto simp add: generateHandler_def try_block_def try_block_sync_def Let_def
      split: sum.splits prod.splits progress.splits provider_result.splits if_splits)

lemma handler_calls_eq:
  "calls (generateHandler openai m d body)
     = (case snd (try_block_sync m d body) of
          Inr (Awaiting p) \<Rightarrow> [p_params p]
        | _ \<Rightarrow> [])"
  by (auto simp add: generateHandler_def try_block_def
      split: sum.splits prod.splits progress.splits provider_result.splits)

lemma handler_reject:
  assumes "text_of body = Inr text" and "key_of body today = Inr key"
    and "\<not> isPro_of body" and "5 \<le> used_of usageCounter key"
  shows "generateHandler openai usageCounter today body =
     \<lparr>counter_after = usageCounter, calls = [],
      response = \<lparr>status = 200,
        json = \<lparr>ok = False, reply = [], todayUsage = used_of usageCounter key,
                todayLimit = 5, isPro = False, message = msg_quota\<rparr>\<rparr>\<rparr>"
  using assms
  by (simp add: generateHandler_def try_block_def sync_reject)

lemma handler_admit_message:
  assumes "text_of body = Inr text" and "key_of body today = Inr key"
    and "isPro_of body \<or> used_of usageCounter key < limit_of (isPro_of body)"
  shows "message (json (response (generateHandler openai usageCounter today body))) \<noteq> msg_quota"
proof -
  note s = sync_admit [OF assms]
  show ?thesis
    by (auto simp add: generateHandler_def try_block_def s catch_block_def msgs_differ
        dest: resume_envelope
        split: sum.splits provider_result.splits)
qed

lemma handler_admit_counter:
  assumes "text_of body = Inr text" and "key_of body today = Inr key"
    and "isPro_of body \<or> used_of usageCounter key < limit_of (isPro_of body)"
  shows "counter_after (generateHandler openai usageCounter today body)
           = usageCounter(key \<mapsto> used_of usageCounter key + 1)"
  using assms by (simp add: handler_counter sync_admit)

text \<open>
  A request whose \<^verbatim>\<open>clipboardText\<close> or \<^verbatim>\<open>clientId\<close> cannot be converted to a text
  throws before the gate: it is answered by the \<^verbatim>\<open>catch\<close> block and the counter is not
  touched. A field that is a text or is absent always converts.
\<close>

lemma handler_fault_before_gate:
  "text_of body = Inl e \<or> key_of body today = Inl e \<Longrightarrow>
   generateHandler openai m today body
     = \<lparr>counter_after = m, calls = [], response = catch_block\<rparr>"
  by (auto simp add: generateHandler_def try_block_def try_block_sync_def split: sum.splits)

lemma texts_reach_gate:
  assumes "field body ''clipboardText'' \<in> insert JUndefined (range JStr)"
    and "field body ''clientId'' \<in> insert JUndefined (range JStr)"
  shows "(\<exists>t. text_of body = Inr t) \<and> (\<exists>k. key_of body today = Inr k)"
  using assms by (auto simp add: text_of_def key_of_def js_or_def)

text \<open>The definitions that evaluate a request on concrete values.\<close>

lemmas eval_defs = field_def js_or_def asc_def text_of_def key_of_def isPro_of_def
  pro_credential_def toneValue_def scenarioValue_def used_of_def limit_of_def trim_def is_ws_def

lemmas example_defs = provider_down_def provider_returns_def mixed_result_def empty_result_def
  broken_result_def free_request_def pro_request_def angry_request_def odd_tone_request_def
  business_claim_request_def day_def

lemma free_request_reaches_gate:
  "\<not> isPro_of free_request \<and> key_of free_request day = Inr (asc ''usage:cs_test_1:2025-11-03'')
   \<and> text_of free_request = Inr (asc ''hello'')"
  by (simp add: example_defs eval_defs)

lemma pro_request_reaches_gate:
  "isPro_of pro_request \<and> key_of pro_request day = Inr (asc ''usage:cs_test_2:2025-11-03'')
   \<and> text_of pro_request = Inr (asc ''hello'')"
  by (simp add: example_defs eval_defs)

section \<open>The entitlement gate\<close>

text \<open>
  C2. When the gate rejects a request (the request has reached the gate, it is not pro
  and the count read is at least the daily limit), the handler answers with status 200,
  \<open>ok = False\<close>, an empty reply, the count that was read as \<open>todayUsage\<close>, the limit
  and the pro flag of the decision and the fixed quota message; the counter is left as it
  was and the provider is not called.
\<close>

theorem quota_rejection:
  assumes "text_of body = Inr text" and "key_of body today = Inr key"
    and "\<not> isPro_of body" and "limit_of (isPro_of body) \<le> used_of usageCounter key"
  shows "generateHandler openai usageCounter today body =
     \<lparr>counter_after = usageCounter, calls = [],
      response = \<lparr>status = 200,
        json = \<lparr>ok = False, reply = [], todayUsage = used_of usageCounter key,
                todayLimit = limit_of (isPro_of body), isPro = isPro_of body,
                message = msg_quota\<rparr>\<rparr>\<rparr>"
  using assms
  by (simp add: generateHandler_def try_block_def try_block_sync_def limit_of_def)

theorem quota_rejection_witness:
  "generateHandler (provider_returns mixed_result) [asc ''usage:cs_test_1:2025-11-03'' \<mapsto> 5]
     day free_request
   = \<lparr>counter_after = [asc ''usage:cs_test_1:2025-11-03'' \<mapsto> 5], calls = [],
      response = \<lparr>status = 200,
        json = \<lparr>ok = False, reply = [], todayUsage = 5, todayLimit = 5, isPro = False,
                message = msg_quota\<rparr>\<rparr>\<rparr>"
  using free_request_reaches_gate
    quota_rejection [of free_request "asc ''hello''" day "asc ''usage:cs_test_1:2025-11-03''"
      "[asc ''usage:cs_test_1:2025-11-03'' \<mapsto> 5]" "provider_returns mixed_result"]
  by (simp add: used_of_def limit_of_def)

subsection \<open>The usage key\<close>

text \<open>
  The key under which the handler counts a request is made of the text of its client and
  of the day, and of nothing else: two requests of one day share their key exactly when
  their clients' texts are equal, and the keys of two days (of the same length, as the
  dates \<^verbatim>\<open>YYYY-MM-DD\<close> are) differ.
\<close>

lemma client_of_text:
  "field body ''clientId'' = JStr c \<Longrightarrow> c \<noteq> [] \<Longrightarrow> client_of body = Inr c"
  "field body ''clientId'' = JUndefined \<Longrightarrow> client_of body = Inr (asc ''anon'')"
  by (simp_all add: client_of_def js_or_def)

lemma key_of_form:
  "key_of body today
     = (case client_of body of Inl e \<Rightarrow> Inl e | Inr cid \<Rightarrow> Inr (usage_key cid today))"
  by (simp add: key_of_def client_of_def)

lemma key_of_client: "client_of body = Inr cid \<Longrightarrow> key_of body today = Inr (usage_key cid today)"
  by (simp add: key_of_form)

lemma key_of_Inr_iff:
  "key_of body today = Inr key
     \<longleftrightarrow> (\<exists>cid. client_of body = Inr cid \<and> key = usage_key cid today)"
  by (auto simp add: key_of_form split: sum.splits)

lemma usage_key_inject:
  "length day1 = length day2 \<Longrightarrow>
   usage_key cid1 day1 = usage_key cid2 day2 \<longleftrightarrow> cid1 = cid2 \<and> day1 = day2"
  by simp

lemma usage_key_same_day: "usage_key cid1 today = usage_key cid2 today \<longleftrightarrow> cid1 = cid2"
  by simp

lemma sync_counter:
  "fst (try_block_sync m d body) = m
   \<or> (\<exists>cid. client_of body = Inr cid
        \<and> fst (try_block_sync m d body)
            = m(usage_key cid d \<mapsto> used_of m (usage_key cid d) + 1))"
  by (auto simp add: try_block_sync_def key_of_form Let_def split: sum.splits)

lemma handler_other_client:
  assumes "client_of body \<noteq> Inr cid"
  shows "counter_after (generateHandler openai m today body) (usage_key cid today)
           = m (usage_key cid today)"
  using assms sync_counter [of m today body]
  by (auto simp add: handler_counter)

lemma example_clients:
  "client_of free_request = Inr (asc ''cs_test_1'')"
  "client_of pro_request = Inr (asc ''cs_test_2'')"
  "client_of other_request = Inr (asc ''cs_test_2'')"
  by (simp_all add: client_of_def other_request_def example_defs eval_defs)

lemma example_keys:
  "usage_key (asc ''cs_test_1'') day = asc ''usage:cs_test_1:2025-11-03''"
  "usage_key (asc ''cs_test_2'') day = asc ''usage:cs_test_2:2025-11-03''"
  by (simp_all add: day_def asc_def)

text \<open>
  C3. For every admitted request (pro, or free with a count below the limit) the entry
  of its own usage key, \<^verbatim>\<open>usage:\<close> followed by the text of its client, a colon and
  the day, is raised by exactly one and no other key changes: not the entry of another
  client, nor that of another day. The counter already holds the increment when the
  handler suspends on the call to the provider, and the handler leaves it so whatever
  the provider does: success, empty output or failure.
\<close>

theorem admitted_increment:
  assumes "text_of body = Inr text" and "client_of body = Inr cid"
    and "isPro_of body
         \<or> used_of usageCounter (usage_key cid today) < limit_of (isPro_of body)"
  shows "fst (try_block_sync usageCounter today body)
           = usageCounter(usage_key cid today
               \<mapsto> used_of usageCounter (usage_key cid today) + 1)
       \<and> counter_after (generateHandler openai usageCounter today body)
           = usageCounter(usage_key cid today
               \<mapsto> used_of usageCounter (usage_key cid today) + 1)
       \<and> used_of (counter_after (generateHandler openai usageCounter today body))
             (usage_key cid today)
           = used_of usageCounter (usage_key cid today) + 1
       \<and> (\<forall>k. k \<noteq> usage_key cid today \<longrightarrow>
             counter_after (generateHandler openai usageCounter today body) k = usageCounter k)
       \<and> (\<forall>cid' day'. length day' = length today \<and> (cid' \<noteq> cid \<or> day' \<noteq> today) \<longrightarrow>
             counter_after (generateHandler openai usageCounter today body) (usage_key cid' day')
               = usageCounter (usage_key cid' day'))"
proof -
  have key: "key_of body today = Inr (usage_key cid today)"
    using assms(2) by (simp add: key_of_def client_of_def)
  have sync: "fst (try_block_sync usageCounter today body)
          = usageCounter(usage_key cid today
              \<mapsto> used_of usageCounter (usage_key cid today) + 1)"
    using sync_admit [OF assms(1) key assms(3)] by simp
  have other: "usage_key cid' day' \<noteq> usage_key cid today"
    if "length day' = length today" and "cid' \<noteq> cid \<or> day' \<noteq> today" for cid' day'
    using that usage_key_inject [of day' today cid' cid] by blast
  show ?thesis
    unfolding handler_counter sync
    using other by (simp add: used_of_def)
qed

theorem admitted_increment_witness:
  "counter_after (generateHandler (provider_returns empty_result)
       (busy_counter(asc ''usage:cs_test_1:2025-11-03'' \<mapsto> 2)) day free_request)
     = busy_counter(asc ''usage:cs_test_1:2025-11-03'' \<mapsto> 3)
   \<and> counter_after (generateHandler (provider_returns empty_result)
       (busy_counter(asc ''usage:cs_test_1:2025-11-03'' \<mapsto> 2)) day free_request)
         (asc ''usage:cs_test_2:2025-11-03'') = Some 5
   \<and> counter_after (generateHandler (provider_returns empty_result)
       (busy_counter(asc ''usage:cs_test_1:2025-11-03'' \<mapsto> 2)) day free_request)
         (asc ''usage:cs_test_1:2025-11-02'') = Some 5
   \<and> message (json (response (generateHandler (provider_returns empty_result)
       (busy_counter(asc ''usage:cs_test_1:2025-11-03'' \<mapsto> 2)) day free_request)))
       = msg_retry
   \<and> counter_after (generateHandler provider_down busy_counter day pro_request)
     = busy_counter(asc ''usage:cs_test_2:2025-11-03'' \<mapsto> 6)
   \<and> counter_after (generateHandler provider_down busy_counter day pro_request)
         (asc ''usage:cs_test_1:2025-11-03'') = None"
proof -
  have retry: "message (json (response (generateHandler (provider_returns empty_result)
       (busy_counter(asc ''usage:cs_test_1:2025-11-03'' \<mapsto> 2)) day free_request)))
       = msg_retry"
    by (simp add: generateHandler_def try_block_def try_block_sync_def try_block_resume_def
        collect_output_text_def busy_counter_def example_defs eval_defs)
  have used1: "used_of (busy_counter(asc ''usage:cs_test_1:2025-11-03'' \<mapsto> 2))
      (asc ''usage:cs_test_1:2025-11-03'') = 2"
    by (simp add: used_of_def)
  have used2: "used_of busy_counter (asc ''usage:cs_test_2:2025-11-03'') = 5"
    by (simp add: used_of_def busy_counter_def asc_def)
  have busy: "busy_counter (asc ''usage:cs_test_2:2025-11-03'') = Some 5"
    "busy_counter (asc ''usage:cs_test_1:2025-11-02'') = Some 5"
    "busy_counter (asc ''usage:cs_test_1:2025-11-03'') = None"
    by (simp_all add: busy_counter_def asc_def)
  have differ: "asc ''usage:cs_test_2:2025-11-03'' \<noteq> asc ''usage:cs_test_1:2025-11-03''"
    "asc ''usage:cs_test_1:2025-11-02'' \<noteq> asc ''usage:cs_test_1:2025-11-03''"
    by (simp_all add: asc_def)
  show ?thesis
    using free_request_reaches_gate pro_request_reaches_gate
      admitted_increment [of free_request "asc ''hello''" "asc ''cs_test_1''"
        "busy_counter(asc ''usage:cs_test_1:2025-11-03'' \<mapsto> 2)" day
        "provider_returns empty_result"]
      admitted_increment [of pro_request "asc ''hello''" "asc ''cs_test_2''"
        busy_counter day provider_down]
    by (simp add: example_clients example_keys used1 used2 busy differ differ [symmetric] retry
        limit_of_def)
qed

subsection \<open>Five requests a day for a free client\<close>

lemma length_serve: "length (serve m d reqs) = length reqs"
  by (induction reqs arbitrary: m) (auto simp add: Let_def)

text \<open>
  The requests of one client in a day's run, among the requests of any other clients:
  the count of the client's key before a request is the number of the client's earlier
  requests, up to five.
\<close>

lemma serve_client:
  assumes "\<forall>(openai, body) \<in> set reqs.
             client_of body = Inr cid \<longrightarrow> \<not> isPro_of body \<and> (\<exists>t. text_of body = Inr t)"
    and "used_of m (usage_key cid today) = k" and "k \<le> 5" and "i < length reqs"
    and "client_of (snd (reqs ! i)) = Inr cid"
    and "n = k + length (filter (\<lambda>r. client_of (snd r) = Inr cid) (take i reqs))"
  shows "(n < 5 \<longrightarrow>
            used_of (counter_after (serve m today reqs ! i)) (usage_key cid today) = n + 1
            \<and> message (json (response (serve m today reqs ! i))) \<noteq> msg_quota)
       \<and> (5 \<le> n \<longrightarrow>
            calls (serve m today reqs ! i) = []
            \<and> response (serve m today reqs ! i) =
                \<lparr>status = 200,
                 json = \<lparr>ok = False, reply = [], todayUsage = 5, todayLimit = 5,
                         isPro = False, message = msg_quota\<rparr>\<rparr>
            \<and> used_of (counter_after (serve m today reqs ! i)) (usage_key cid today) = 5)"
  using assms
proof (induction reqs arbitrary: m k i n)
  case Nil
  then show ?case by simp
next
  case (Cons req reqs)
  obtain openai body where req: "req = (openai, body)" by (cases req)
  let ?K = "usage_key cid today"
  let ?out = "generateHandler openai m today body"
  let ?mine = "client_of body = Inr cid"
  have step: "used_of (counter_after ?out) ?K
      = (if ?mine then (if k < 5 then k + 1 else 5) else k)"
  proof (cases ?mine)
    case False
    then have "counter_after ?out ?K = m ?K" by (rule handler_other_client)
    with False Cons.prems(2) show ?thesis by (simp add: used_of_def)
  next
    case True
    with Cons.prems(1) req obtain t where
      b: "\<not> isPro_of body" "key_of body today = Inr ?K" "text_of body = Inr t"
      by (auto simp add: key_of_def client_of_def)
    show ?thesis
    proof (cases "k < 5")
      case k: True
      with b Cons.prems(2) have "counter_after ?out = m(?K \<mapsto> k + 1)"
        by (simp add: handler_admit_counter limit_of_def)
      with k True show ?thesis by (simp add: used_of_def)
    next
      case k: False
      with Cons.prems(2,3) have "used_of m ?K = 5" by simp
      with b have "counter_after ?out = m" by (simp add: handler_reject)
      with k True \<open>used_of m ?K = 5\<close> show ?thesis by simp
    qed
  qed
  show ?case
  proof (cases i)
    case 0
    with Cons.prems(5) req have mine: ?mine by simp
    with Cons.prems(1) req obtain t where
      b: "\<not> isPro_of body" "key_of body today = Inr ?K" "text_of body = Inr t"
      by (auto simp add: key_of_def client_of_def)
    from 0 Cons.prems(6) have n: "n = k" by simp
    show ?thesis
    proof (cases "k < 5")
      case True
      with b Cons.prems(2) have "message (json (response ?out)) \<noteq> msg_quota"
        by (intro handler_admit_message [of body t today ?K]) (simp_all add: limit_of_def)
      with True 0 req step mine n show ?thesis by (simp add: Let_def)
    next
      case False
      with Cons.prems(2,3) have "used_of m ?K = 5" by simp
      with b have "?out = \<lparr>counter_after = m, calls = [],
        response = \<lparr>status = 200,
          json = \<lparr>ok = False, reply = [], todayUsage = 5, todayLimit = 5, isPro = False,
                  message = msg_quota\<rparr>\<rparr>\<rparr>"
        using handler_reject [of body t today ?K m openai] by simp
      with False 0 req \<open>used_of m ?K = 5\<close> n show ?thesis by (simp add: Let_def)
    qed
  next
    case (Suc j)
    let ?k' = "if ?mine then (if k < 5 then k + 1 else 5) else k"
    let ?n' = "?k' + length (filter (\<lambda>r. client_of (snd r) = Inr cid) (take j reqs))"
    have ih: "(?n' < 5 \<longrightarrow>
            used_of (counter_after (serve (counter_after ?out) today reqs ! j)) ?K = ?n' + 1
            \<and> message (json (response (serve (counter_after ?out) today reqs ! j))) \<noteq> msg_quota)
       \<and> (5 \<le> ?n' \<longrightarrow>
            calls (serve (counter_after ?out) today reqs ! j) = []
            \<and> response (serve (counter_after ?out) today reqs ! j) =
                \<lparr>status = 200,
                 json = \<lparr>ok = False, reply = [], todayUsage = 5, todayLimit = 5,
                         isPro = False, message = msg_quota\<rparr>\<rparr>
            \<and> used_of (counter_after (serve (counter_after ?out) today reqs ! j)) ?K = 5)"
    proof (rule Cons.IH)
      show "\<forall>(openai, body) \<in> set reqs.
             client_of body = Inr cid \<longrightarrow> \<not> isPro_of body \<and> (\<exists>t. text_of body = Inr t)"
        using Cons.prems(1) by simp
      show "used_of (counter_after ?out) ?K = ?k'" by (rule step)
      show "?k' \<le> 5" using Cons.prems(3) by simp
      show "j < length reqs" using Cons.prems(4) Suc by simp
      show "client_of (snd (reqs ! j)) = Inr cid" using Cons.prems(5) Suc by simp
      show "?n' = ?n'" ..
    qed
    have same: "serve m today (req # reqs) ! i = serve (counter_after ?out) today reqs ! j"
      using Suc req by (simp add: Let_def)
    have n: "n = k + (if ?mine then 1 else 0)
        + length (filter (\<lambda>r. client_of (snd r) = Inr cid) (take j reqs))"
      using Cons.prems(6) Suc req by simp
    show ?thesis
      unfolding same
      using ih n Cons.prems(3) by (auto split: if_splits)
  qed
qed

text \<open>
  C1. For every client and every day: in a run of requests served on that day, among
  them the requests of any other clients, free or pro, where the client's own requests
  do not present the pro credential and reach the gate, and the client's key
  (\<^verbatim>\<open>usage:\<close>, the client's text, a colon, the day) starts the run without a count,
  the client's requests are admitted on the first five, each raising the count of that
  key by one, and rejected from the sixth on, each rejection answering
  \<open>todayUsage = 5\<close> without a call to the provider and leaving the count at 5. The
  number of the client's earlier requests in the run decides, whatever the other
  clients' requests do and whatever counts the other keys hold.
\<close>

theorem free_tier_five_per_day:
  assumes "\<forall>(openai, body) \<in> set reqs.
             client_of body = Inr cid \<longrightarrow> \<not> isPro_of body \<and> (\<exists>t. text_of body = Inr t)"
    and "used_of usageCounter (usage_key cid today) = 0"
    and "i < length reqs" and "client_of (snd (reqs ! i)) = Inr cid"
    and "n = length (filter (\<lambda>r. client_of (snd r) = Inr cid) (take i reqs))"
  shows "(n < 5 \<longrightarrow>
            used_of (counter_after (serve usageCounter today reqs ! i)) (usage_key cid today)
              = n + 1
            \<and> message (json (response (serve usageCounter today reqs ! i))) \<noteq> msg_quota)
       \<and> (5 \<le> n \<longrightarrow>
            calls (serve usageCounter today reqs ! i) = []
            \<and> response (serve usageCounter today reqs ! i) =
                \<lparr>status = 200,
                 json = \<lparr>ok = False, reply = [], todayUsage = 5, todayLimit = 5,
                         isPro = False, message = msg_quota\<rparr>\<rparr>
            \<and> used_of (counter_after (serve usageCounter today reqs ! i))
                 (usage_key cid today) = 5)"
  using serve_client [OF assms(1,2) _ assms(3,4), of n] assms(5) by simp

theorem free_tier_five_per_day_witness:
  "used_of (counter_after (serve busy_counter day mixed_day ! 6))
       (asc ''usage:cs_test_1:2025-11-03'') = 5
   \<and> message (json (response (serve busy_counter day mixed_day ! 6))) \<noteq> msg_quota
   \<and> calls (serve busy_counter day mixed_day ! 8) = []
   \<and> response (serve busy_counter day mixed_day ! 8)
     = \<lparr>status = 200,
        json = \<lparr>ok = False, reply = [], todayUsage = 5, todayLimit = 5, isPro = False,
                message = msg_quota\<rparr>\<rparr>
   \<and> todayUsage (json (response (serve busy_counter day mixed_day ! 9))) = 5"
proof -
  let ?mine = "\<lambda>r :: provider \<times> jsval. client_of (snd r) = Inr (asc ''cs_test_1'')"
  have other: "asc ''cs_test_2'' \<noteq> asc ''cs_test_1''"
    by (simp add: asc_def)
  have reqs: "\<forall>(openai, body) \<in> set mixed_day.
      client_of body = Inr (asc ''cs_test_1'')
        \<longrightarrow> \<not> isPro_of body \<and> (\<exists>t. text_of body = Inr t)"
    using free_request_reaches_gate by (simp add: mixed_day_def example_clients other)
  have fresh: "used_of busy_counter (usage_key (asc ''cs_test_1'') day) = 0"
    by (simp add: used_of_def busy_counter_def day_def asc_def)
  have len: "6 < length mixed_day" "8 < length mixed_day" "9 < length mixed_day"
    by (simp_all add: mixed_day_def)
  have mine: "?mine (mixed_day ! 6)" "?mine (mixed_day ! 8)" "?mine (mixed_day ! 9)"
    by (simp_all add: mixed_day_def example_clients)
  have earlier: "(4 :: nat) = length (filter ?mine (take 6 mixed_day))"
    "(5 :: nat) = length (filter ?mine (take 8 mixed_day))"
    "(6 :: nat) = length (filter ?mine (take 9 mixed_day))"
    by (simp_all add: mixed_day_def example_clients other)
  show ?thesis
    using free_tier_five_per_day [OF reqs fresh len(1) mine(1) earlier(1)]
      free_tier_five_per_day [OF reqs fresh len(2) mine(2) earlier(2)]
      free_tier_five_per_day [OF reqs fresh len(3) mine(3) earlier(3)]
    by (simp add: example_keys)
qed

subsection \<open>The pro credential\<close>

text \<open>
  C4, as the specification states it, fails: a request with the pro credential whose
  call to the provider fails is answered by the \<^verbatim>\<open>catch\<close> block, with
  \<open>isPro = False\<close> and \<open>todayLimit = 5\<close>.
\<close>

theorem pro_response_counterexample:
  "isPro_of pro_request
   \<and> \<not> isPro (json (response (generateHandler provider_down Map.empty day pro_request)))
   \<and> todayLimit (json (response (generateHandler provider_down Map.empty day pro_request))) = 5"
  by (simp add: generateHandler_def try_block_def try_block_sync_def catch_block_def
      example_defs eval_defs)

text \<open>
  C4, amended. A request whose \<^verbatim>\<open>licenseKey\<close> is exactly the pro credential is never
  answered with the quota rejection, whatever the count stored for its key; when no fault
  is thrown in the \<^verbatim>\<open>try\<close> block its response carries \<open>isPro = True\<close> and
  \<open>todayLimit = 999\<close>, and when a fault is thrown the response is the fallback of the
  \<^verbatim>\<open>catch\<close> block.
\<close>

theorem pro_never_rejected:
  assumes "isPro_of body"
  shows "message (json (response (generateHandler openai usageCounter today body))) \<noteq> msg_quota
       \<and> (case snd (snd (try_block openai usageCounter today body)) of
            Inl e \<Rightarrow> response (generateHandler openai usageCounter today body) = catch_block
          | Inr r \<Rightarrow> response (generateHandler openai usageCounter today body) = r
                     \<and> isPro (json r) \<and> todayLimit (json r) = 999)"
proof (cases "try_block_sync usageCounter today body")
  case (Pair m' res)
  show ?thesis
  proof (cases res)
    case (Inl e)
    with Pair show ?thesis
      by (simp add: generateHandler_def try_block_def catch_block_def msgs_differ)
  next
    case (Inr pr)
    show ?thesis
    proof (cases pr)
      case (Responded r)
      with Pair Inr assms show ?thesis by (auto dest: sync_pro)
    next
      case (Awaiting p)
      with Pair Inr assms have p: "p_isPro p" "p_limit p = 999"
        by (auto dest: sync_pending simp add: limit_of_def)
      show ?thesis
      proof (cases "openai (p_params p)")
        case Rejects
        with Pair Inr Awaiting show ?thesis
          by (simp add: generateHandler_def try_block_def catch_block_def msgs_differ)
      next
        case (Resolves ai)
        with Pair Inr Awaiting p show ?thesis
          by (cases "try_block_resume m' p ai")
            (auto simp add: generateHandler_def try_block_def catch_block_def msgs_differ
              dest: resume_envelope)
      qed
    qed
  qed
qed

theorem pro_never_rejected_witness:
  "message (json (response (generateHandler (provider_returns mixed_result)
       [asc ''usage:cs_test_2:2025-11-03'' \<mapsto> 500] day pro_request))) \<noteq> msg_quota
   \<and> isPro (json (response (generateHandler (provider_returns mixed_result)
       [asc ''usage:cs_test_2:2025-11-03'' \<mapsto> 500] day pro_request)))
   \<and> todayLimit (json (response (generateHandler (provider_returns mixed_result)
       [asc ''usage:cs_test_2:2025-11-03'' \<mapsto> 500] day pro_request))) = 999
   \<and> todayUsage (json (response (generateHandler (provider_returns mixed_result)
       [asc ''usage:cs_test_2:2025-11-03'' \<mapsto> 500] day pro_request))) = 501"
proof -
  have pro: "isPro_of pro_request"
    by (simp add: example_defs eval_defs)
  have run: "snd (snd (try_block (provider_returns mixed_result)
       [asc ''usage:cs_test_2:2025-11-03'' \<mapsto> 500] day pro_request))
     = Inr \<lparr>status = 200, json = \<lparr>ok = True, reply = asc ''abcd'', todayUsage = 501,
          todayLimit = 999, isPro = True, message = msg_done_pro\<rparr>\<rparr>"
    by (simp add: try_block_def try_block_sync_def try_block_resume_def collect_output_text_def
        get_prop_def opt_prop_def example_defs eval_defs)
  show ?thesis
    using pro_never_rejected [OF pro, of "provider_returns mixed_result"
        "[asc ''usage:cs_test_2:2025-11-03'' \<mapsto> 500]" day]
    by (simp add: run msgs_differ)
qed


section \<open>The prompt composer\<close>

text \<open>
  C5, as the specification states it, fails: a tone or a scenario outside the three
  recognised values is used as it is. The request with tone \<^verbatim>\<open>angry\<close> and scenario
  \<^verbatim>\<open>refund\<close> sends both to the provider in the user instruction.
\<close>

theorem tone_default_counterexample:
  "toneValue angry_request = JStr (asc ''angry'')
   \<and> toneValue angry_request
       \<notin> {JStr (asc ''friendly''), JStr (asc ''business''), JStr (asc ''principle'')}
   \<and> scenarioValue angry_request = JStr (asc ''refund'')
   \<and> scenarioValue angry_request
       \<notin> {JStr (asc ''general''), JStr (asc ''claim''), JStr (asc ''review'')}
   \<and> calls (generateHandler provider_down Map.empty day angry_request)
       = [create_call systemPrompt (userPrompt (asc ''angry'') (asc ''refund'') (asc ''hello''))]"
  by (simp add: handler_calls_eq try_block_sync_def example_defs eval_defs)

text \<open>
  C5, amended. An absent or falsy tone (\<^verbatim>\<open>undefined\<close>, \<^verbatim>\<open>null\<close>, the empty text,
  \<^verbatim>\<open>false\<close>, a zero) is treated as \<^verbatim>\<open>friendly\<close> and an absent or falsy scenario as
  \<^verbatim>\<open>general\<close>; every other value, one of the three recognised values or not, is used
  unchanged, and its conversion to a text stands in the user instruction of the call.
\<close>

theorem tone_falsy_default:
  "toneValue body
     = (if truthy (field body ''tone'') then field body ''tone'' else JStr (asc ''friendly''))
   \<and> scenarioValue body
     = (if truthy (field body ''scenario'') then field body ''scenario''
        else JStr (asc ''general''))
   \<and> (field body ''tone''
         \<in> {JStr (asc ''friendly''), JStr (asc ''business''), JStr (asc ''principle'')}
        \<longrightarrow> toneValue body = field body ''tone'')
   \<and> (field body ''scenario''
         \<in> {JStr (asc ''general''), JStr (asc ''claim''), JStr (asc ''review'')}
        \<longrightarrow> scenarioValue body = field body ''scenario'')
   \<and> (\<forall>c \<in> set (calls (generateHandler openai usageCounter today body)).
         \<exists>toneText scenarioText text.
           toString (toneValue body) = Inr toneText
           \<and> toString (scenarioValue body) = Inr scenarioText
           \<and> text_of body = Inr text
           \<and> instruction_of ''user'' c = userPrompt toneText scenarioText text)"
proof -
  have "\<forall>c \<in> set (calls (generateHandler openai usageCounter today body)).
         \<exists>toneText scenarioText text.
           toString (toneValue body) = Inr toneText
           \<and> toString (scenarioValue body) = Inr scenarioText
           \<and> text_of body = Inr text
           \<and> instruction_of ''user'' c = userPrompt toneText scenarioText text"
  proof
    fix c assume "c \<in> set (calls (generateHandler openai usageCounter today body))"
    from handler_calls [OF this] show "\<exists>toneText scenarioText text.
           toString (toneValue body) = Inr toneText
           \<and> toString (scenarioValue body) = Inr scenarioText
           \<and> text_of body = Inr text
           \<and> instruction_of ''user'' c = userPrompt toneText scenarioText text"
      by (auto simp add: instruction_of_def create_call_def asc_def)
  qed
  then show ?thesis
    by (auto simp add: toneValue_def scenarioValue_def js_or_def asc_def)
qed

theorem tone_falsy_default_witness:
  "toneValue (JObj []) = JStr (asc ''friendly'')
   \<and> scenarioValue (JObj []) = JStr (asc ''general'')
   \<and> toneValue business_claim_request = JStr (asc ''business'')
   \<and> scenarioValue business_claim_request = JStr (asc ''claim'')
   \<and> map (instruction_of ''user'')
        (calls (generateHandler provider_down Map.empty day business_claim_request))
      = [userPrompt (asc ''business'') (asc ''claim'') (asc ''hello'')]"
proof -
  have c: "calls (generateHandler provider_down Map.empty day business_claim_request)
      = [create_call systemPrompt (userPrompt (asc ''business'') (asc ''claim'') (asc ''hello''))]"
    by (simp add: handler_calls_eq try_block_sync_def example_defs eval_defs)
  show ?thesis
    using tone_falsy_default [of "JObj []" provider_down Map.empty day]
      tone_falsy_default [of business_claim_request provider_down Map.empty day]
    by (simp add: c instruction_of_create_call)
      (simp add: example_defs eval_defs)
qed

text \<open>
  C10. The instructions sent to the provider depend only on the tone value, the scenario
  value and the trimmed customer text: two requests that agree on these three send the
  same call, whatever their license keys, client identities, counters, days and
  providers.
\<close>

theorem prompts_independent_of_identity:
  assumes "toneValue body1 = toneValue body2"
    and "scenarioValue body1 = scenarioValue body2"
    and "text_of body1 = text_of body2"
    and "c1 \<in> set (calls (generateHandler openai1 usageCounter1 today1 body1))"
    and "c2 \<in> set (calls (generateHandler openai2 usageCounter2 today2 body2))"
  shows "c1 = c2"
  using handler_calls [OF assms(4)] handler_calls [OF assms(5)] assms(1-3)
  by auto

theorem prompts_independent_of_identity_witness:
  "field free_request ''licenseKey'' \<noteq> field pro_request ''licenseKey''
   \<and> field free_request ''clientId'' \<noteq> field pro_request ''clientId''
   \<and> calls (generateHandler provider_down Map.empty day free_request) \<noteq> []
   \<and> hd (calls (generateHandler provider_down Map.empty day free_request))
     = hd (calls (generateHandler (provider_returns mixed_result)
         [asc ''usage:cs_test_2:2025-11-03'' \<mapsto> 500] (asc ''2025-11-04'') pro_request))"
proof -
  have c1: "calls (generateHandler provider_down Map.empty day free_request)
      = [create_call systemPrompt (userPrompt (asc ''friendly'') (asc ''general'') (asc ''hello''))]"
    by (simp add: handler_calls_eq try_block_sync_def example_defs eval_defs)
  have c2: "calls (generateHandler (provider_returns mixed_result)
         [asc ''usage:cs_test_2:2025-11-03'' \<mapsto> 500] (asc ''2025-11-04'') pro_request)
      = [create_call systemPrompt (userPrompt (asc ''friendly'') (asc ''general'') (asc ''hello''))]"
    by (simp add: handler_calls_eq try_block_sync_def example_defs eval_defs)
  have same: "toneValue free_request = toneValue pro_request
      \<and> scenarioValue free_request = scenarioValue pro_request
      \<and> text_of free_request = text_of pro_request"
    by (simp add: example_defs eval_defs)
  have differ: "field free_request ''licenseKey'' \<noteq> field pro_request ''licenseKey''
      \<and> field free_request ''clientId'' \<noteq> field pro_request ''clientId''"
    by (simp add: example_defs eval_defs)
  show ?thesis
    using same differ
      prompts_independent_of_identity [of free_request pro_request
        "hd (calls (generateHandler provider_down Map.empty day free_request))"
        provider_down Map.empty day
        "hd (calls (generateHandler (provider_returns mixed_result)
           [asc ''usage:cs_test_2:2025-11-03'' \<mapsto> 500] (asc ''2025-11-04'') pro_request))"
        "provider_returns mixed_result" "[asc ''usage:cs_test_2:2025-11-03'' \<mapsto> 500]"
        "asc ''2025-11-04''"]
    by (simp add: c1 c2)
qed

section \<open>Extraction of the reply\<close>

lemma opt_prop_own: "opt_prop v k = own v k"
  by (cases v) (simp_all add: opt_prop_def)

lemma content_loop_ok:
  "list_all (\<lambda>c. \<not> nullish c) cs \<Longrightarrow>
   content_loop cs acc = Inr (acc @ concat (map (\<lambda>c. text_of_part (part_of c)) cs))"
  by (induction cs arbitrary: acc) (auto simp add: get_prop_def part_of_def split: jsval.splits)

lemma content_loop_strings: "content_loop (map JStr xs) acc = Inr acc"
  by (induction xs) (simp_all add: get_prop_def asc_def)

lemma output_loop_ok:
  "list_all segment_ok items \<Longrightarrow>
   output_loop items acc = Inr (acc @ concat (map text_of_part (concat (map parts_of items))))"
proof (induction items arbitrary: acc)
  case Nil
  then show ?case by simp
next
  case (Cons item items)
  then have rest: "\<And>acc. output_loop items acc
      = Inr (acc @ concat (map text_of_part (concat (map parts_of items))))"
    and ok: "segment_ok item"
    by simp_all
  show ?case
  proof (cases "own item (asc ''content'')")
    case (JArr cs)
    with ok have "list_all (\<lambda>c. \<not> nullish c) cs"
      by (simp add: segment_ok_def opt_prop_own)
    moreover have "parts_of item = map part_of cs"
      using JArr by (simp add: parts_of_def)
    ultimately show ?thesis
      using JArr by (simp add: opt_prop_own content_loop_ok rest comp_def)
  next
    case (JStr s)
    moreover have "parts_of item = []"
      using JStr by (simp add: parts_of_def)
    ultimately show ?thesis
      by (simp add: opt_prop_own content_loop_strings rest)
  qed (use ok in \<open>simp_all add: segment_ok_def opt_prop_own rest parts_of_def [of item]\<close>)
qed

lemma own_falsy: "\<not> truthy v \<Longrightarrow> own v k = JUndefined"
  by (cases v) simp_all

lemma collect_ok:
  "shape_ok ai \<Longrightarrow>
   collect_output_text ai = Inr (concat (map text_of_part (concat (map parts_of (segments_of ai)))))"
  by (cases "own ai (asc ''output'')")
    (auto simp add: collect_output_text_def shape_ok_def segments_of_def output_loop_ok
      own_falsy)

lemma content_loop_fault:
  "\<not> list_all (\<lambda>c. \<not> nullish c) cs \<Longrightarrow> content_loop cs acc = Inl TypeError"
  by (induction cs arbitrary: acc) (auto simp add: get_prop_def split: jsval.splits)

lemma output_loop_fault:
  "\<not> list_all segment_ok items \<Longrightarrow> output_loop items acc = Inl TypeError"
proof (induction items arbitrary: acc)
  case Nil
  then show ?case by simp
next
  case (Cons item items)
  show ?case
  proof (cases "segment_ok item")
    case True
    with Cons.prems have "\<not> list_all segment_ok items" by simp
    then have rest: "\<And>acc. output_loop items acc = Inl TypeError" by (rule Cons.IH)
    from True have "output_loop [item] acc
        = Inr (acc @ concat (map text_of_part (concat (map parts_of [item]))))"
      by (intro output_loop_ok) simp
    then show ?thesis
      by (auto simp add: rest Let_def split: if_splits sum.splits)
  next
    case False
    then show ?thesis
      by (cases "own item (asc ''content'')")
        (auto simp add: segment_ok_def opt_prop_own content_loop_fault)
  qed
qed

lemma own_array_truthy: "own v k = JArr xs \<Longrightarrow> truthy v"
  by (cases v) simp_all

lemma collect_fault_iff: "(\<exists>raw. collect_output_text ai = Inr raw) \<longleftrightarrow> shape_ok ai"
proof
  assume "shape_ok ai"
  then show "\<exists>raw. collect_output_text ai = Inr raw" by (simp add: collect_ok)
next
  assume a: "\<exists>raw. collect_output_text ai = Inr raw"
  show "shape_ok ai"
  proof (rule ccontr)
    assume "\<not> shape_ok ai"
    then have "collect_output_text ai = Inl TypeError"
      by (cases "own ai (asc ''output'')")
        (auto simp add: collect_output_text_def shape_ok_def segments_of_def output_loop_fault
          dest: own_array_truthy)
    with a show False by simp
  qed
qed

text \<open>
  C6. On every result of the tolerated shapes (zero segments, segments without content,
  content parts of any kind) the two loops of the handler do not throw and collect, in
  order, exactly the texts of the generated-text parts, so that the trimmed reply is the
  one the specification describes; the handler then answers with that reply, and with
  \<open>ok = False\<close>, an empty reply and the retry message when it is empty.
\<close>

theorem extraction_refines_spec:
  assumes "shape_ok ai"
  shows "(\<exists>raw. collect_output_text ai = Inr raw
            \<and> trim raw = spec_extract (map parts_of (segments_of ai)))
       \<and> (\<exists>r. try_block_resume usageCounter p ai = Inr r \<and> status r = 200
            \<and> reply (json r) = spec_extract (map parts_of (segments_of ai))
            \<and> ok (json r) = (spec_extract (map parts_of (segments_of ai)) \<noteq> [])
            \<and> (spec_extract (map parts_of (segments_of ai)) = [] \<longrightarrow>
                 message (json r) = msg_retry))"
  using collect_ok [OF assms]
  by (simp add: try_block_resume_def spec_extract_def Let_def)

theorem extraction_refines_spec_witness:
  "shape_ok mixed_result
   \<and> spec_extract (map parts_of (segments_of mixed_result)) = asc ''abcd''
   \<and> (\<exists>r. try_block_resume Map.empty
              \<lparr>p_key = [], p_used = 0, p_limit = 5, p_isPro = False,
               p_params = create_call [] []\<rparr> mixed_result = Inr r
          \<and> ok (json r) \<and> reply (json r) = asc ''abcd'')
   \<and> shape_ok empty_result
   \<and> (\<exists>r. try_block_resume Map.empty
              \<lparr>p_key = [], p_used = 0, p_limit = 5, p_isPro = False,
               p_params = create_call [] []\<rparr> empty_result = Inr r
          \<and> \<not> ok (json r) \<and> reply (json r) = [] \<and> message (json r) = msg_retry)"
proof -
  have s1: "shape_ok mixed_result"
    by (simp add: mixed_result_def shape_ok_def segments_of_def segment_ok_def opt_prop_def
        asc_def)
  have e1: "spec_extract (map parts_of (segments_of mixed_result)) = asc ''abcd''"
    by (simp add: mixed_result_def spec_extract_def segments_of_def parts_of_def part_of_def
        eval_defs)
  have s2: "shape_ok empty_result"
    by (simp add: empty_result_def shape_ok_def segments_of_def asc_def)
  have e2: "spec_extract (map parts_of (segments_of empty_result)) = []"
    by (simp add: empty_result_def spec_extract_def segments_of_def eval_defs)
  show ?thesis
    using extraction_refines_spec [OF s1, of Map.empty
        "\<lparr>p_key = [], p_used = 0, p_limit = 5, p_isPro = False, p_params = create_call [] []\<rparr>"]
      extraction_refines_spec [OF s2, of Map.empty
        "\<lparr>p_key = [], p_used = 0, p_limit = 5, p_isPro = False, p_params = create_call [] []\<rparr>"]
    by (auto simp add: s1 s2 e1 e2 asc_def)
qed

section \<open>The fallback of the catch block\<close>

text \<open>
  C7. Whenever a fault is thrown in the \<^verbatim>\<open>try\<close> block (while the request is
  normalised, while the prompts are composed, by the provider, or while its output is
  parsed) the handler answers with exactly the fallback envelope: status 200,
  \<open>ok = False\<close>, an empty reply, \<open>todayUsage = 0\<close>, \<open>todayLimit = 5\<close>,
  \<open>isPro = False\<close> and the fixed message, whatever the caller's count, limit and pro
  status.
\<close>

theorem faults_give_fallback:
  assumes "snd (snd (try_block openai usageCounter today body)) = Inl e"
  shows "response (generateHandler openai usageCounter today body) =
     \<lparr>status = 200,
      json = \<lparr>ok = False, reply = [], todayUsage = 0, todayLimit = 5, isPro = False,
              message = msg_server_error\<rparr>\<rparr>"
  using assms
  by (cases "try_block openai usageCounter today body")
    (simp add: generateHandler_def catch_block_def)

lemma fault_composing:
  "snd (snd (try_block provider_down [asc ''usage:cs_test_2:2025-11-03'' \<mapsto> 7] day odd_tone_request))
     = Inl TypeError"
  by (simp add: try_block_def try_block_sync_def example_defs eval_defs)

lemma fault_provider:
  "snd (snd (try_block provider_down Map.empty day pro_request)) = Inl ProviderFault"
  by (simp add: try_block_def try_block_sync_def example_defs eval_defs)

lemma fault_parsing:
  "snd (snd (try_block (provider_returns broken_result) Map.empty day pro_request)) = Inl TypeError"
  by (simp add: try_block_def try_block_sync_def try_block_resume_def collect_output_text_def
      get_prop_def opt_prop_def example_defs eval_defs)

theorem faults_give_fallback_witness:
  "response (generateHandler provider_down [asc ''usage:cs_test_2:2025-11-03'' \<mapsto> 7] day
      odd_tone_request) = catch_block
   \<and> response (generateHandler provider_down Map.empty day pro_request) = catch_block
   \<and> response (generateHandler (provider_returns broken_result) Map.empty day pro_request)
       = catch_block"
  using faults_give_fallback [OF fault_composing] faults_give_fallback [OF fault_provider]
    faults_give_fallback [OF fault_parsing]
  by (simp add: catch_block_def)

section \<open>The status code\<close>

text \<open>
  C9. Whatever the request, the counter, the day and the provider's behaviour, the
  handler answers with status 200: rejection, empty output, success and internal failure
  all do, and no fault leaves the handler.
\<close>

theorem status_always_200:
  "status (response (generateHandler openai usageCounter today body)) = 200"
  by (auto simp add: generateHandler_def try_block_def try_block_sync_def catch_block_def Let_def
      dest: resume_status
      split: sum.splits prod.splits progress.splits provider_result.splits if_splits)

end
